theory Spec2Isabelle
  imports Main "HOL-Library.Word" "HOL-Library.Char_ord" "HOL-Library.List_Lexorder"
begin

section \<open>The PodMonitoring scrape-configuration compiler\<close>

text \<open>
  A shallow embedding of \<^verbatim>\<open>pkg/operator/apis/monitoring/v1alpha1/types.go\<close>: the
  validation entry points of \<^verbatim>\<open>PodMonitoring\<close>, \<^verbatim>\<open>ScrapeConfigs\<close>,
  \<^verbatim>\<open>endpontScrapeConfig\<close>, \<^verbatim>\<open>labelMappingRelabelConfigs\<close>,
  \<^verbatim>\<open>isPrometheusTargetLabel\<close> and \<^verbatim>\<open>sanitizeLabelName\<close>.

  Go strings are byte sequences: \<^typ>\<open>string\<close>, with the byte order of
  \<^theory_text>\<open>Char_ord\<close> and the lexicographic order of \<^theory_text>\<open>List_Lexorder\<close>, which
  is the order of Go's \<^verbatim>\<open><\<close> on strings and so of \<^verbatim>\<open>sort.Strings\<close>.
\<close>

subsection \<open>Outcomes of a call\<close>

text \<open>
  \<^verbatim>\<open>prommodel.Duration\<close> is an \<^verbatim>\<open>int64\<close> (nanoseconds); Go compares it signed.
\<close>

type_synonym Duration = "64 word"

text \<open>
  One constructor per error the file builds. The message of an error of an imported
  package, which the file only wraps, is not kept.
  \<^item> \<open>NoEndpoints\<close>: \<^verbatim>\<open>errors.New("at least one endpoint is required")\<close>
  \<^item> \<open>InvalidEndpoint i e\<close>: \<^verbatim>\<open>errors.Wrapf(err, "invalid definition for endpoint with index %d", i)\<close>
  \<^item> \<open>InvalidPortName p\<close>: \<^verbatim>\<open>errors.Wrapf(err, "invalid port name %q", ep.Port)\<close>
  \<^item> \<open>MissingPort\<close>: \<^verbatim>\<open>errors.New("port must be set for PodMonitoring")\<close>
  \<^item> \<open>InvalidTargetLabels e\<close>: \<^verbatim>\<open>errors.Wrap(err, "invalid PodMonitoring target labels")\<close>
  \<^item> \<open>ReservedLabelCollision from to\<close>: \<^verbatim>\<open>fmt.Errorf("relabel %q to %q conflicts with GMP target schema", m.From, m.To)\<close>
  \<^item> \<open>InvalidScrapeInterval\<close>: \<^verbatim>\<open>errors.Wrap(err, "invalid scrape interval")\<close>
  \<^item> \<open>InvalidScrapeTimeout\<close>: \<^verbatim>\<open>errors.Wrap(err, "invalid scrape timeout")\<close>
  \<^item> \<open>TimeoutExceedsInterval t i\<close>: \<^verbatim>\<open>errors.Errorf("scrape timeout %v must not be greater than scrape interval %v", timeout, interval)\<close>
\<close>

datatype error =
    NoEndpoints
  | InvalidEndpoint nat error
  | InvalidPortName string
  | MissingPort
  | InvalidTargetLabels error
  | ReservedLabelCollision string string
  | InvalidScrapeInterval
  | InvalidScrapeTimeout
  | TimeoutExceedsInterval Duration Duration

text \<open>
  A call returns a value (\<open>Ok\<close>), returns an error (\<open>Err\<close>), or panics (\<open>Panic\<close>:
  \<^verbatim>\<open>relabel.MustNewRegexp\<close> on a pattern that does not compile, an index out of range).
\<close>

datatype 'a result = Ok 'a | Err error | Panic

definition andThen :: "'a result \<Rightarrow> ('a \<Rightarrow> 'b result) \<Rightarrow> 'b result" where
  "andThen r f = (case r of Ok x \<Rightarrow> f x | Err e \<Rightarrow> Err e | Panic \<Rightarrow> Panic)"

subsection \<open>What the file imports\<close>

text \<open>
  The file uses six constants of this repository's package \<^verbatim>\<open>export\<close>, which is not
  among the sources, and two functions of the Prometheus libraries. They are parameters
  of the model:
  \<^item> \<open>KeyProjectID\<close> to \<open>KeyInstance\<close>: the six constants of that name of package \<^verbatim>\<open>export\<close>;
  \<^item> \<open>Compiles s\<close>: \<^verbatim>\<open>relabel.NewRegexp(s)\<close> returns no error (the anchored pattern
    \<^verbatim>\<open>^(?:s)$\<close> is a valid regular expression);
  \<^item> \<open>ParseDuration s\<close>: \<^verbatim>\<open>prommodel.ParseDuration(s)\<close>, \<open>None\<close> when it returns an error.
\<close>

record Imports =
  KeyProjectID :: string
  KeyLocation :: string
  KeyCluster :: string
  KeyNamespace :: string
  KeyJob :: string
  KeyInstance :: string
  Compiles :: "string \<Rightarrow> bool"
  ParseDuration :: "string \<Rightarrow> Duration option"

text \<open>
  A \<^verbatim>\<open>relabel.Regexp\<close> is represented by the pattern it was compiled from.
  \<^verbatim>\<open>relabel.NewRegexp\<close> returns an error and \<^verbatim>\<open>relabel.MustNewRegexp\<close> panics when the
  pattern does not compile.
\<close>

type_synonym Regexp = string

definition NewRegexp :: "Imports \<Rightarrow> string \<Rightarrow> Regexp option" where
  "NewRegexp E s = (if Compiles E s then Some s else None)"

definition MustNewRegexp :: "Imports \<Rightarrow> string \<Rightarrow> Regexp result" where
  "MustNewRegexp E s = (case NewRegexp E s of Some re \<Rightarrow> Ok re | None \<Rightarrow> Panic)"

subsection \<open>The resource types\<close>

text \<open>
  \<^verbatim>\<open>intstr.IntOrString\<close>: \<^verbatim>\<open>Type\<close>, \<^verbatim>\<open>IntVal int32\<close>, \<^verbatim>\<open>StrVal string\<close>.
\<close>

datatype IntstrType = IntstrInt | IntstrString

record IntOrString =
  Type :: IntstrType
  IntVal :: "32 word"
  StrVal :: string

record ScrapeEndpoint =
  Port :: IntOrString
  Path :: string
  Interval :: string
  Timeout :: string

record LabelMapping =
  From :: string
  To :: string

record TargetLabels =
  FromPod :: "LabelMapping list"

text \<open>
  \<^verbatim>\<open>metav1.LabelSelectorRequirement\<close>; the operator is a string type, so any string can
  stand there. \<^verbatim>\<open>metav1.LabelSelector\<close>: \<^verbatim>\<open>MatchLabels\<close> is a Go map, modelled by the
  list of its entries in the order in which this run of \<^verbatim>\<open>range\<close> visits them; the keys
  of a Go map are distinct.
\<close>

record LabelSelectorRequirement =
  Key :: string
  Operator :: string
  Values :: "string list"

record LabelSelector =
  MatchLabels :: "(string \<times> string) list"
  MatchExpressions :: "LabelSelectorRequirement list"

record PodMonitoringSpec =
  Selector :: LabelSelector
  Endpoints :: "ScrapeEndpoint list"
  TargetLabels :: TargetLabels

text \<open>Of the object's metadata the file reads \<^verbatim>\<open>pm.Namespace\<close> and \<^verbatim>\<open>pm.Name\<close>.\<close>

record PodMonitoring =
  Namespace :: string
  Name :: string
  Spec :: PodMonitoringSpec

subsection \<open>The generated configuration\<close>

datatype Action = Keep | Drop | Replace

text \<open>
  \<^verbatim>\<open>relabel.Config\<close>, with the fields the file sets. A field that a literal leaves out
  has Go's zero value: no regular expression, the empty string.
\<close>

record Config =
  Action :: Action
  SourceLabels :: "string list"
  Regex :: "Regexp option"
  Replacement :: string
  TargetLabel :: string

record SelectorConfig =
  SelectorRole :: string
  Field :: string

record SDConfig =
  Role :: string
  Selectors :: "SelectorConfig list"

record ScrapeConfig =
  JobName :: string
  ServiceDiscoveryConfigs :: "SDConfig list"
  MetricsPath :: string
  ScrapeInterval :: Duration
  ScrapeTimeout :: Duration
  RelabelConfigs :: "Config list"

subsection \<open>sanitizeLabelName\<close>

text \<open>
  \<^verbatim>\<open>invalidLabelCharRE = regexp.MustCompile(`[^a-zA-Z0-9_]`)\<close> and
  \<^verbatim>\<open>invalidLabelCharRE.ReplaceAllString(name, "_")\<close>. Go's regular expressions read a
  string rune by rune: a byte below \<^verbatim>\<open>0x80\<close> is a rune of its own, a well-formed
  UTF-8 sequence of two to four bytes is one rune, and any other byte is the rune
  \<^verbatim>\<open>U+FFFD\<close> of width one (\<^verbatim>\<open>utf8.DecodeRuneInString\<close>). Every rune outside the
  class is one match and is replaced by one underscore.
\<close>

definition isLabelChar :: "char \<Rightarrow> bool" where
  "isLabelChar c =
     ((CHR ''a'' \<le> c \<and> c \<le> CHR ''z'') \<or> (CHR ''A'' \<le> c \<and> c \<le> CHR ''Z'')
      \<or> (CHR ''0'' \<le> c \<and> c \<le> CHR ''9'') \<or> c = CHR ''_'')"

text \<open>
  The table \<^verbatim>\<open>first\<close> of \<^verbatim>\<open>unicode/utf8\<close>: for a leading byte, the length of the
  sequence and the range accepted for its second byte.
\<close>

definition first :: "nat \<Rightarrow> (nat \<times> nat \<times> nat) option" where
  "first b =
    (if 0xC2 \<le> b \<and> b \<le> 0xDF then Some (2, 0x80, 0xBF)
     else if b = 0xE0 then Some (3, 0xA0, 0xBF)
     else if 0xE1 \<le> b \<and> b \<le> 0xEC then Some (3, 0x80, 0xBF)
     else if b = 0xED then Some (3, 0x80, 0x9F)
     else if 0xEE \<le> b \<and> b \<le> 0xEF then Some (3, 0x80, 0xBF)
     else if b = 0xF0 then Some (4, 0x90, 0xBF)
     else if 0xF1 \<le> b \<and> b \<le> 0xF3 then Some (4, 0x80, 0xBF)
     else if b = 0xF4 then Some (4, 0x80, 0x8F)
     else None)"

definition between :: "nat \<Rightarrow> nat \<Rightarrow> char \<Rightarrow> bool" where
  "between lo hi c = (lo \<le> of_char c \<and> of_char c \<le> hi)"

text \<open>
  The width of the rune that starts with the byte \<open>c\<close> (at least \<^verbatim>\<open>0x80\<close>) and goes
  on in \<open>cs\<close>; an ill-formed or truncated sequence has width one.
\<close>

definition runeWidth :: "char \<Rightarrow> string \<Rightarrow> nat" where
  "runeWidth c cs =
    (case first (of_char c) of
       None \<Rightarrow> 1
     | Some (sz, lo, hi) \<Rightarrow>
         if length cs < sz - 1 then 1
         else if \<not> between lo hi (cs ! 0) then 1
         else if sz = 2 then 2
         else if \<not> between 0x80 0xBF (cs ! 1) then 1
         else if sz = 3 then 3
         else if \<not> between 0x80 0xBF (cs ! 2) then 1
         else 4)"

fun sanitizeLabelName :: "string \<Rightarrow> string" where
  "sanitizeLabelName [] = []"
| "sanitizeLabelName (c # cs) =
     (if (of_char c :: nat) < 0x80
      then (if isLabelChar c then c else CHR ''_'') # sanitizeLabelName cs
      else CHR ''_'' # sanitizeLabelName (drop (runeWidth c cs - 1) cs))"



subsection \<open>isPrometheusTargetLabel and labelMappingRelabelConfigs\<close>

definition isPrometheusTargetLabel :: "Imports \<Rightarrow> string \<Rightarrow> bool" where
  "isPrometheusTargetLabel E label =
     (if label = KeyProjectID E \<or> label = KeyLocation E \<or> label = KeyCluster E
         \<or> label = KeyNamespace E \<or> label = KeyJob E \<or> label = KeyInstance E
      then True else False)"

text \<open>
  The loop of \<^verbatim>\<open>labelMappingRelabelConfigs\<close>, with the slice \<^verbatim>\<open>relabelCfgs\<close> it appends
  to. The collision test reads \<^verbatim>\<open>m.To\<close> as the caller wrote it; only then is an empty
  \<^verbatim>\<open>m.To\<close> replaced by \<^verbatim>\<open>m.From\<close>.
\<close>

fun labelMappingLoop ::
  "Imports \<Rightarrow> LabelMapping list \<Rightarrow> string \<Rightarrow> Config list \<Rightarrow> Config list result" where
  "labelMappingLoop E [] prefix relabelCfgs = Ok relabelCfgs"
| "labelMappingLoop E (m # ms) prefix relabelCfgs =
     (if isPrometheusTargetLabel E (To m)
      then Err (ReservedLabelCollision (From m) (To m))
      else
        let m = (if To m = '''' then m\<lparr>To := From m\<rparr> else m) in
        labelMappingLoop E ms prefix
          (relabelCfgs @
            [\<lparr>Action = Replace,
              SourceLabels = [prefix @ sanitizeLabelName (From m)],
              Regex = None,
              Replacement = '''',
              TargetLabel = To m\<rparr>]))"

definition labelMappingRelabelConfigs ::
  "Imports \<Rightarrow> LabelMapping list \<Rightarrow> string \<Rightarrow> Config list result" where
  "labelMappingRelabelConfigs E mappings prefix = labelMappingLoop E mappings prefix []"

subsection \<open>Helpers of the Go libraries\<close>

text \<open>
  \<^verbatim>\<open>strconv.Itoa\<close> and the verb \<^verbatim>\<open>%d\<close>: the decimal digits of an integer, with a
  minus sign for a negative one.
\<close>

fun natToDec :: "nat \<Rightarrow> string" where
  "natToDec n =
     (if n < 10 then [''0123456789'' ! n]
      else natToDec (n div 10) @ [''0123456789'' ! (n mod 10)])"

declare natToDec.simps [simp del]

definition Itoa :: "int \<Rightarrow> string" where
  "Itoa i = (if i < 0 then CHR ''-'' # natToDec (nat (- i)) else natToDec (nat i))"

text \<open>\<^verbatim>\<open>strings.Join\<close>.\<close>

fun Join :: "string list \<Rightarrow> string \<Rightarrow> string" where
  "Join [] sep = []"
| "Join [x] sep = x"
| "Join (x # y # ys) sep = x @ sep @ Join (y # ys) sep"

text \<open>
  \<^verbatim>\<open>(*IntOrString).String\<close>, which the verb \<^verbatim>\<open>%s\<close> calls on \<^verbatim>\<open>&ep.Port\<close>.
\<close>

definition IntOrString_String :: "IntOrString \<Rightarrow> string" where
  "IntOrString_String p =
     (if Type p = IntstrString then StrVal p else Itoa (sint (IntVal p)))"

text \<open>Reading a Go map at a key: the zero value when the key is absent.\<close>

definition mapIndex :: "(string \<times> string) list \<Rightarrow> string \<Rightarrow> string" where
  "mapIndex m k = (case map_of m k of Some v \<Rightarrow> v | None \<Rightarrow> [])"

text \<open>The operators of \<^verbatim>\<open>metav1.LabelSelectorOperator\<close>.\<close>

definition LabelSelectorOpIn :: string where
  "LabelSelectorOpIn = ''In''"

definition LabelSelectorOpNotIn :: string where
  "LabelSelectorOpNotIn = ''NotIn''"

definition LabelSelectorOpExists :: string where
  "LabelSelectorOpExists = ''Exists''"

definition LabelSelectorOpDoesNotExist :: string where
  "LabelSelectorOpDoesNotExist = ''DoesNotExist''"

subsection \<open>endpontScrapeConfig\<close>

definition EnvVarNodeName :: string where
  "EnvVarNodeName = ''NODE_NAME''"

text \<open>
  The discovery configuration (lines 229 to 244), the same for every job; the HTTP
  client configuration is the library's default and is left out.
\<close>

definition discoveryCfgs :: "SDConfig list" where
  "discoveryCfgs =
     [\<lparr>Role = ''pod'',
       Selectors = [\<lparr>SelectorRole = ''pod'',
                     Field = ''spec.nodeName=$('' @ EnvVarNodeName @ '')''\<rparr>]\<rparr>]"

text \<open>
  The loop over the sorted keys of \<^verbatim>\<open>MatchLabels\<close> (lines 268 to 274), appending to
  \<^verbatim>\<open>relabelCfgs\<close>.
\<close>

fun matchLabelsLoop ::
  "Imports \<Rightarrow> (string \<times> string) list \<Rightarrow> string list \<Rightarrow> Config list \<Rightarrow> Config list result" where
  "matchLabelsLoop E ml [] relabelCfgs = Ok relabelCfgs"
| "matchLabelsLoop E ml (k # ks) relabelCfgs =
     andThen (MustNewRegexp E (mapIndex ml k)) (\<lambda>re.
       matchLabelsLoop E ml ks
         (relabelCfgs @
           [\<lparr>Action = Keep,
             SourceLabels = [''__meta_kubernetes_pod_label_'' @ sanitizeLabelName k],
             Regex = Some re,
             Replacement = [],
             TargetLabel = []\<rparr>]))"

text \<open>
  The loop over \<^verbatim>\<open>MatchExpressions\<close> (lines 276 to 303). The \<^verbatim>\<open>switch\<close> has no
  \<^verbatim>\<open>default\<close>: with any other operator the loop goes on to the next expression.
\<close>

fun matchExpressionsLoop ::
  "Imports \<Rightarrow> LabelSelectorRequirement list \<Rightarrow> Config list \<Rightarrow> Config list result" where
  "matchExpressionsLoop E [] relabelCfgs = Ok relabelCfgs"
| "matchExpressionsLoop E (exp # exps) relabelCfgs =
     (if Operator exp = LabelSelectorOpIn then
        andThen (MustNewRegexp E (Join (Values exp) ''|'')) (\<lambda>re.
          matchExpressionsLoop E exps
            (relabelCfgs @
              [\<lparr>Action = Keep,
                SourceLabels = [''__meta_kubernetes_pod_label_'' @ sanitizeLabelName (Key exp)],
                Regex = Some re,
                Replacement = [],
                TargetLabel = []\<rparr>]))
      else if Operator exp = LabelSelectorOpNotIn then
        andThen (MustNewRegexp E (Join (Values exp) ''|'')) (\<lambda>re.
          matchExpressionsLoop E exps
            (relabelCfgs @
              [\<lparr>Action = Drop,
                SourceLabels = [''__meta_kubernetes_pod_label_'' @ sanitizeLabelName (Key exp)],
                Regex = Some re,
                Replacement = [],
                TargetLabel = []\<rparr>]))
      else if Operator exp = LabelSelectorOpExists then
        andThen (MustNewRegexp E ''true'') (\<lambda>re.
          matchExpressionsLoop E exps
            (relabelCfgs @
              [\<lparr>Action = Keep,
                SourceLabels = [''__meta_kubernetes_pod_labelpresent_'' @ sanitizeLabelName (Key exp)],
                Regex = Some re,
                Replacement = [],
                TargetLabel = []\<rparr>]))
      else if Operator exp = LabelSelectorOpDoesNotExist then
        andThen (MustNewRegexp E ''true'') (\<lambda>re.
          matchExpressionsLoop E exps
            (relabelCfgs @
              [\<lparr>Action = Drop,
                SourceLabels = [''__meta_kubernetes_pod_labelpresent_'' @ sanitizeLabelName (Key exp)],
                Regex = Some re,
                Replacement = [],
                TargetLabel = []\<rparr>]))
      else matchExpressionsLoop E exps relabelCfgs)"

text \<open>
  Lines 249 to 315: the namespace filter, the selector rules and the two rules that
  set the labels \<^verbatim>\<open>namespace\<close> and \<^verbatim>\<open>job\<close>.
\<close>

definition selectorRelabelConfigs :: "Imports \<Rightarrow> PodMonitoring \<Rightarrow> Config list result" where
  "selectorRelabelConfigs E pm =
     andThen (MustNewRegexp E (Namespace pm)) (\<lambda>re.
       let relabelCfgs =
             [\<lparr>Action = Keep,
               SourceLabels = [''__meta_kubernetes_namespace''],
               Regex = Some re,
               Replacement = [],
               TargetLabel = []\<rparr>];
           selectorKeys = sort (map fst (MatchLabels (Selector (Spec pm))))
       in
       andThen (matchLabelsLoop E (MatchLabels (Selector (Spec pm))) selectorKeys relabelCfgs)
         (\<lambda>relabelCfgs.
       andThen (matchExpressionsLoop E (MatchExpressions (Selector (Spec pm))) relabelCfgs)
         (\<lambda>relabelCfgs.
       let relabelCfgs = relabelCfgs @
             [\<lparr>Action = Replace,
               SourceLabels = [''__meta_kubernetes_namespace''],
               Regex = None,
               Replacement = [],
               TargetLabel = ''namespace''\<rparr>];
           relabelCfgs = relabelCfgs @
             [\<lparr>Action = Replace,
               SourceLabels = [],
               Regex = None,
               Replacement = Name pm,
               TargetLabel = ''job''\<rparr>]
       in Ok relabelCfgs)))"

text \<open>
  Lines 329 to 367: the port. The name is tested first, then the number.
\<close>

definition portRelabelConfigs ::
  "Imports \<Rightarrow> ScrapeEndpoint \<Rightarrow> Config list \<Rightarrow> Config list result" where
  "portRelabelConfigs E ep relabelCfgs =
     (if StrVal (Port ep) \<noteq> [] then
        (case NewRegexp E (StrVal (Port ep)) of
           None \<Rightarrow> Err (InvalidPortName (StrVal (Port ep)))
         | Some portValue \<Rightarrow>
             let relabelCfgs = relabelCfgs @
                   [\<lparr>Action = Keep,
                     SourceLabels = [''__meta_kubernetes_pod_container_port_name''],
                     Regex = Some portValue,
                     Replacement = [],
                     TargetLabel = []\<rparr>]
             in
             andThen (MustNewRegexp E ''(.+);(.+)'') (\<lambda>re.
               Ok (relabelCfgs @
                   [\<lparr>Action = Replace,
                     SourceLabels = [''__meta_kubernetes_pod_name'',
                                     ''__meta_kubernetes_pod_container_port_name''],
                     Regex = Some re,
                     Replacement = ''$1:$2'',
                     TargetLabel = ''instance''\<rparr>])))
      else if IntVal (Port ep) \<noteq> 0 then
        (let relabelCfgs = relabelCfgs @
               [\<lparr>Action = Replace,
                 SourceLabels = [''__meta_kubernetes_pod_name''],
                 Regex = None,
                 Replacement = ''$1:'' @ Itoa (sint (IntVal (Port ep))),
                 TargetLabel = ''instance''\<rparr>];
             relabelCfgs = relabelCfgs @
               [\<lparr>Action = Replace,
                 SourceLabels = [''__meta_kubernetes_pod_ip''],
                 Regex = None,
                 Replacement = ''$1:'' @ Itoa (sint (IntVal (Port ep))),
                 TargetLabel = ''__address__''\<rparr>]
         in Ok relabelCfgs)
      else Err MissingPort)"

text \<open>
  Lines 376 to 389: the interval and the timeout.
\<close>

definition scrapeDurations :: "Imports \<Rightarrow> ScrapeEndpoint \<Rightarrow> (Duration \<times> Duration) result" where
  "scrapeDurations E ep =
     (case ParseDuration E (Interval ep) of
        None \<Rightarrow> Err InvalidScrapeInterval
      | Some interval \<Rightarrow>
          if Timeout ep \<noteq> [] then
            (case ParseDuration E (Timeout ep) of
               None \<Rightarrow> Err InvalidScrapeTimeout
             | Some timeout \<Rightarrow>
                 if sint interval < sint timeout
                 then Err (TimeoutExceedsInterval timeout interval)
                 else Ok (interval, timeout))
          else Ok (interval, interval))"

text \<open>
  The function itself. \<^verbatim>\<open>pm.Spec.Endpoints[index]\<close> panics when the index is out of
  range; \<^verbatim>\<open>ScrapeConfigs\<close> calls the function with the indices of the slice.
\<close>

definition endpontScrapeConfig :: "Imports \<Rightarrow> PodMonitoring \<Rightarrow> nat \<Rightarrow> ScrapeConfig result" where
  "endpontScrapeConfig E pm index =
     (if length (Endpoints (Spec pm)) \<le> index then Panic
      else
        let ep = Endpoints (Spec pm) ! index in
        andThen (selectorRelabelConfigs E pm) (\<lambda>relabelCfgs.
        andThen (portRelabelConfigs E ep relabelCfgs) (\<lambda>relabelCfgs.
        (case labelMappingRelabelConfigs E (FromPod (TargetLabels (Spec pm)))
                ''__meta_kubernetes_pod_label_'' of
           Err err \<Rightarrow> Err (InvalidTargetLabels err)
         | Panic \<Rightarrow> Panic
         | Ok pCfgs \<Rightarrow>
             let relabelCfgs = relabelCfgs @ pCfgs in
             andThen (scrapeDurations E ep) (\<lambda>(interval, timeout).
             let metricsPath = (if Path ep \<noteq> [] then Path ep else ''/metrics'') in
             Ok \<lparr>JobName = ''PodMonitoring/'' @ Namespace pm @ ''/'' @ Name pm @ ''/''
                             @ IntOrString_String (Port ep),
                 ServiceDiscoveryConfigs = discoveryCfgs,
                 MetricsPath = metricsPath,
                 ScrapeInterval = interval,
                 ScrapeTimeout = timeout,
                 RelabelConfigs = relabelCfgs\<rparr>)))))"

subsection \<open>ScrapeConfigs and the validation entry points\<close>

text \<open>
  The loop of \<^verbatim>\<open>ScrapeConfigs\<close> over the indices of \<^verbatim>\<open>pm.Spec.Endpoints\<close>, with the
  slice \<^verbatim>\<open>res\<close>: the first error is returned, wrapped with the index, with \<^verbatim>\<open>nil\<close>
  in place of \<^verbatim>\<open>res\<close>.
\<close>

fun ScrapeConfigsLoop ::
  "Imports \<Rightarrow> PodMonitoring \<Rightarrow> nat list \<Rightarrow> ScrapeConfig list \<Rightarrow> ScrapeConfig list result" where
  "ScrapeConfigsLoop E pm [] res = Ok res"
| "ScrapeConfigsLoop E pm (i # is) res =
     (case endpontScrapeConfig E pm i of
        Err err \<Rightarrow> Err (InvalidEndpoint i err)
      | Panic \<Rightarrow> Panic
      | Ok c \<Rightarrow> ScrapeConfigsLoop E pm is (res @ [c]))"

definition ScrapeConfigs :: "Imports \<Rightarrow> PodMonitoring \<Rightarrow> ScrapeConfig list result" where
  "ScrapeConfigs E pm = ScrapeConfigsLoop E pm [0 ..< length (Endpoints (Spec pm))] []"

text \<open>
  The three validation methods return an \<^verbatim>\<open>error\<close>; \<open>Ok ()\<close> is \<^verbatim>\<open>nil\<close>. The
  argument \<^verbatim>\<open>old\<close> of \<^verbatim>\<open>ValidateUpdate\<close> is any \<^verbatim>\<open>runtime.Object\<close>.
\<close>

definition ValidateCreate :: "Imports \<Rightarrow> PodMonitoring \<Rightarrow> unit result" where
  "ValidateCreate E pm =
     (if length (Endpoints (Spec pm)) = 0 then Err NoEndpoints
      else (case ScrapeConfigs E pm of
              Ok res \<Rightarrow> Ok ()
            | Err err \<Rightarrow> Err err
            | Panic \<Rightarrow> Panic))"

definition ValidateUpdate :: "Imports \<Rightarrow> PodMonitoring \<Rightarrow> 'obj \<Rightarrow> unit result" where
  "ValidateUpdate E pm old = ValidateCreate E pm"

definition ValidateDelete :: "PodMonitoring \<Rightarrow> unit result" where
  "ValidateDelete pm = Ok ()"

section \<open>The stages, as the specification describes them\<close>

text \<open>
  The specification describes the rule sequence of a job stage by stage. The
  definitions of this section follow its words; the theorems below compare them with
  what \<open>endpontScrapeConfig\<close> appends to \<^verbatim>\<open>relabelCfgs\<close>.
\<close>

text \<open>The Keep rule restricting to the target's own namespace.\<close>

definition namespaceFilter :: "PodMonitoring \<Rightarrow> Config" where
  "namespaceFilter pm =
     \<lparr>Action = Keep, SourceLabels = [''__meta_kubernetes_namespace''],
      Regex = Some (Namespace pm), Replacement = [], TargetLabel = []\<rparr>"

text \<open>
  For an exact-match label: a Keep rule matching the discovered pod label against the
  literal value.
\<close>

definition exactMatchRule :: "(string \<times> string) list \<Rightarrow> string \<Rightarrow> Config" where
  "exactMatchRule ml k =
     \<lparr>Action = Keep, SourceLabels = [''__meta_kubernetes_pod_label_'' @ sanitizeLabelName k],
      Regex = Some (mapIndex ml k), Replacement = [], TargetLabel = []\<rparr>"

text \<open>
  For an expression: \<open>In\<close> is a Keep rule on the alternation of the values, \<open>NotIn\<close> a
  Drop rule on it, \<open>Exists\<close> a Keep rule on the label-present signal, \<open>DoesNotExist\<close>
  a Drop rule on it; any other operator gives no rule.
\<close>

definition expressionRule :: "LabelSelectorRequirement \<Rightarrow> Config list" where
  "expressionRule exp =
     (if Operator exp = ''In'' then
        [\<lparr>Action = Keep,
          SourceLabels = [''__meta_kubernetes_pod_label_'' @ sanitizeLabelName (Key exp)],
          Regex = Some (Join (Values exp) ''|''), Replacement = [], TargetLabel = []\<rparr>]
      else if Operator exp = ''NotIn'' then
        [\<lparr>Action = Drop,
          SourceLabels = [''__meta_kubernetes_pod_label_'' @ sanitizeLabelName (Key exp)],
          Regex = Some (Join (Values exp) ''|''), Replacement = [], TargetLabel = []\<rparr>]
      else if Operator exp = ''Exists'' then
        [\<lparr>Action = Keep,
          SourceLabels = [''__meta_kubernetes_pod_labelpresent_'' @ sanitizeLabelName (Key exp)],
          Regex = Some ''true'', Replacement = [], TargetLabel = []\<rparr>]
      else if Operator exp = ''DoesNotExist'' then
        [\<lparr>Action = Drop,
          SourceLabels = [''__meta_kubernetes_pod_labelpresent_'' @ sanitizeLabelName (Key exp)],
          Regex = Some ''true'', Replacement = [], TargetLabel = []\<rparr>]
      else [])"

text \<open>The patterns that the rules of an expression need compiled.\<close>

definition expressionPatterns :: "LabelSelectorRequirement \<Rightarrow> string list" where
  "expressionPatterns exp =
     (if Operator exp = ''In'' \<or> Operator exp = ''NotIn'' then [Join (Values exp) ''|'']
      else if Operator exp = ''Exists'' \<or> Operator exp = ''DoesNotExist'' then [''true'']
      else [])"

text \<open>
  The two identity-normalization rules: the namespace signal into the label
  \<open>namespace\<close>, and the label \<open>job\<close> set to the target's name.
\<close>

definition identityRules :: "PodMonitoring \<Rightarrow> Config list" where
  "identityRules pm =
     [\<lparr>Action = Replace, SourceLabels = [''__meta_kubernetes_namespace''],
       Regex = None, Replacement = [], TargetLabel = ''namespace''\<rparr>,
      \<lparr>Action = Replace, SourceLabels = [],
       Regex = None, Replacement = Name pm, TargetLabel = ''job''\<rparr>]"

text \<open>
  The port rules for a port name: a Keep rule on the declared container port name, then
  the instance label merged from pod name and port name.
\<close>

definition namedPortRules :: "string \<Rightarrow> Config list" where
  "namedPortRules name =
     [\<lparr>Action = Keep, SourceLabels = [''__meta_kubernetes_pod_container_port_name''],
       Regex = Some name, Replacement = [], TargetLabel = []\<rparr>,
      \<lparr>Action = Replace,
       SourceLabels = [''__meta_kubernetes_pod_name'',
                       ''__meta_kubernetes_pod_container_port_name''],
       Regex = Some ''(.+);(.+)'', Replacement = ''$1:$2'', TargetLabel = ''instance''\<rparr>]"

text \<open>
  The port rules for a port number: the instance label from pod name and number, then
  the discovered address overridden with the number.
\<close>

definition numberedPortRules :: "32 word \<Rightarrow> Config list" where
  "numberedPortRules n =
     [\<lparr>Action = Replace, SourceLabels = [''__meta_kubernetes_pod_name''],
       Regex = None, Replacement = ''$1:'' @ Itoa (sint n), TargetLabel = ''instance''\<rparr>,
      \<lparr>Action = Replace, SourceLabels = [''__meta_kubernetes_pod_ip''],
       Regex = None, Replacement = ''$1:'' @ Itoa (sint n), TargetLabel = ''__address__''\<rparr>]"

definition portRules :: "ScrapeEndpoint \<Rightarrow> Config list" where
  "portRules ep =
     (if StrVal (Port ep) \<noteq> [] then namedPortRules (StrVal (Port ep))
      else numberedPortRules (IntVal (Port ep)))"

text \<open>One Replace rule per label mapping; \<open>to\<close> defaults to \<open>from\<close>.\<close>

definition mappingRule :: "string \<Rightarrow> LabelMapping \<Rightarrow> Config" where
  "mappingRule prefix m =
     \<lparr>Action = Replace, SourceLabels = [prefix @ sanitizeLabelName (From m)],
      Regex = None, Replacement = [],
      TargetLabel = (if To m = [] then From m else To m)\<rparr>"

text \<open>
  The namespace filter, the selector rules (exact-match rules in the order of the sorted
  keys, then the expression rules in the order of declaration) and the identity
  rules; and the patterns they need compiled.
\<close>

definition selectorRules :: "PodMonitoring \<Rightarrow> Config list" where
  "selectorRules pm =
     namespaceFilter pm
       # map (exactMatchRule (MatchLabels (Selector (Spec pm))))
             (sort (map fst (MatchLabels (Selector (Spec pm)))))
       @ concat (map expressionRule (MatchExpressions (Selector (Spec pm))))
       @ identityRules pm"

definition selectorPatterns :: "PodMonitoring \<Rightarrow> string list" where
  "selectorPatterns pm =
     Namespace pm
       # map (mapIndex (MatchLabels (Selector (Spec pm))))
             (sort (map fst (MatchLabels (Selector (Spec pm)))))
       @ concat (map expressionPatterns (MatchExpressions (Selector (Spec pm))))"

text \<open>A target with other expressions, or with other exact-match labels.\<close>

definition withExpressions :: "PodMonitoring \<Rightarrow> LabelSelectorRequirement list \<Rightarrow> PodMonitoring" where
  "withExpressions pm exps =
     pm\<lparr>Spec := (Spec pm)\<lparr>Selector := (Selector (Spec pm))\<lparr>MatchExpressions := exps\<rparr>\<rparr>\<rparr>"

definition withMatchLabels :: "PodMonitoring \<Rightarrow> (string \<times> string) list \<Rightarrow> PodMonitoring" where
  "withMatchLabels pm ml =
     pm\<lparr>Spec := (Spec pm)\<lparr>Selector := (Selector (Spec pm))\<lparr>MatchLabels := ml\<rparr>\<rparr>\<rparr>"

section \<open>Examples\<close>

text \<open>
  Modelled from the spec: the six reserved identity labels (project, location, cluster,
  namespace, job, instance), which are the constants of package \<^verbatim>\<open>export\<close>, not among
  the sources. The two library functions are given on the strings of the examples
  only: a pattern made of letters, digits, underscores and bars, and the file's own
  pattern \<^verbatim>\<open>(.+);(.+)\<close>, compile; the durations \<^verbatim>\<open>30s\<close> and \<^verbatim>\<open>45s\<close> parse to
  their nanoseconds and the empty string is no duration. On every other string
  \<open>exampleImports\<close> answers with an error, whatever the libraries do there.
\<close>

definition exampleImports :: Imports where
  "exampleImports =
     \<lparr>KeyProjectID = ''project'',
      KeyLocation = ''location'',
      KeyCluster = ''cluster'',
      KeyNamespace = ''namespace'',
      KeyJob = ''job'',
      KeyInstance = ''instance'',
      Compiles = (\<lambda>s. s = ''(.+);(.+)'' \<or> list_all (\<lambda>c. isLabelChar c \<or> c = CHR ''|'') s),
      ParseDuration = (\<lambda>s. if s = ''30s'' then Some 30000000000
                            else if s = ''45s'' then Some 45000000000
                            else None)\<rparr>"

text \<open>
  The end-to-end scenario of the specification: namespace \<^verbatim>\<open>ns1\<close>, name \<^verbatim>\<open>app\<close>,
  selector \<^verbatim>\<open>{app: "x"}\<close>, here with any list of endpoints, and its endpoint
  \<^verbatim>\<open>{port: "web", interval: "30s"}\<close>.
\<close>

definition exampleTarget :: "ScrapeEndpoint list \<Rightarrow> PodMonitoring" where
  "exampleTarget eps =
     \<lparr>Namespace = ''ns1'', Name = ''app'',
      Spec = \<lparr>Selector = \<lparr>MatchLabels = [(''app'', ''x'')], MatchExpressions = []\<rparr>,
              Endpoints = eps,
              TargetLabels = \<lparr>FromPod = []\<rparr>\<rparr>\<rparr>"

definition webEndpoint :: ScrapeEndpoint where
  "webEndpoint =
     \<lparr>Port = \<lparr>Type = IntstrString, IntVal = 0, StrVal = ''web''\<rparr>,
      Path = [], Interval = ''30s'', Timeout = []\<rparr>"

text \<open>The rules and the job that the specification gives for the scenario.\<close>

definition webRules :: "Config list" where
  "webRules =
     [\<lparr>Action = Keep, SourceLabels = [''__meta_kubernetes_namespace''],
       Regex = Some ''ns1'', Replacement = [], TargetLabel = []\<rparr>,
      \<lparr>Action = Keep, SourceLabels = [''__meta_kubernetes_pod_label_app''],
       Regex = Some ''x'', Replacement = [], TargetLabel = []\<rparr>,
      \<lparr>Action = Replace, SourceLabels = [''__meta_kubernetes_namespace''],
       Regex = None, Replacement = [], TargetLabel = ''namespace''\<rparr>,
      \<lparr>Action = Replace, SourceLabels = [],
       Regex = None, Replacement = ''app'', TargetLabel = ''job''\<rparr>,
      \<lparr>Action = Keep, SourceLabels = [''__meta_kubernetes_pod_container_port_name''],
       Regex = Some ''web'', Replacement = [], TargetLabel = []\<rparr>,
      \<lparr>Action = Replace,
       SourceLabels = [''__meta_kubernetes_pod_name'',
                       ''__meta_kubernetes_pod_container_port_name''],
       Regex = Some ''(.+);(.+)'', Replacement = ''$1:$2'', TargetLabel = ''instance''\<rparr>]"

definition webJob :: ScrapeConfig where
  "webJob =
     \<lparr>JobName = ''PodMonitoring/ns1/app/web'',
      ServiceDiscoveryConfigs = discoveryCfgs,
      MetricsPath = ''/metrics'',
      ScrapeInterval = 30000000000,
      ScrapeTimeout = 30000000000,
      RelabelConfigs = webRules\<rparr>"

text \<open>An endpoint with no port at all, with the interval and the timeout given.\<close>

definition noPortEndpoint :: "string \<Rightarrow> string \<Rightarrow> ScrapeEndpoint" where
  "noPortEndpoint interval timeout =
     \<lparr>Port = \<lparr>Type = IntstrInt, IntVal = 0, StrVal = []\<rparr>,
      Path = [], Interval = interval, Timeout = timeout\<rparr>"

text \<open>
  The selector \<^verbatim>\<open>{b: "2", a: "1"}\<close> of the specification, visited as \<^verbatim>\<open>b\<close>, \<^verbatim>\<open>a\<close>,
  and the job it gives.
\<close>

definition baLabels :: "(string \<times> string) list" where
  "baLabels = [(''b'', ''2''), (''a'', ''1'')]"

definition abJob :: ScrapeConfig where
  "abJob =
     webJob\<lparr>RelabelConfigs :=
       [\<lparr>Action = Keep, SourceLabels = [''__meta_kubernetes_namespace''],
         Regex = Some ''ns1'', Replacement = [], TargetLabel = []\<rparr>,
        \<lparr>Action = Keep, SourceLabels = [''__meta_kubernetes_pod_label_a''],
         Regex = Some ''1'', Replacement = [], TargetLabel = []\<rparr>,
        \<lparr>Action = Keep, SourceLabels = [''__meta_kubernetes_pod_label_b''],
         Regex = Some ''2'', Replacement = [], TargetLabel = []\<rparr>]
       @ drop 2 webRules\<rparr>"

text \<open>An expression whose operator is none of the four.\<close>

definition matchesExpression :: LabelSelectorRequirement where
  "matchesExpression = \<lparr>Key = ''tier'', Operator = ''Matches'', Values = [''front'']\<rparr>"

text \<open>
  An endpoint with both port fields populated, and one with a port number only.
\<close>

definition bothPortsEndpoint :: ScrapeEndpoint where
  "bothPortsEndpoint =
     \<lparr>Port = \<lparr>Type = IntstrString, IntVal = 8080, StrVal = ''web''\<rparr>,
      Path = [], Interval = ''30s'', Timeout = []\<rparr>"

definition numberEndpoint :: ScrapeEndpoint where
  "numberEndpoint =
     \<lparr>Port = \<lparr>Type = IntstrInt, IntVal = 8080, StrVal = []\<rparr>,
      Path = [], Interval = ''30s'', Timeout = []\<rparr>"

section \<open>The stages of the code and of the specification agree\<close>

lemma andThen_simps [simp]:
  "andThen (Ok x) f = f x"
  "andThen (Err e) f = Err e"
  "andThen Panic f = Panic"
  by (simp_all add: andThen_def)

lemma MustNewRegexp_eq: "MustNewRegexp E s = (if Compiles E s then Ok s else Panic)"
  by (simp add: MustNewRegexp_def NewRegexp_def)

lemma matchLabelsLoop_eq:
  "matchLabelsLoop E ml ks acc =
     (if list_all (\<lambda>k. Compiles E (mapIndex ml k)) ks
      then Ok (acc @ map (exactMatchRule ml) ks) else Panic)"
  by (induction ks arbitrary: acc) (simp_all add: MustNewRegexp_eq exactMatchRule_def)

lemma matchExpressionsLoop_eq:
  "matchExpressionsLoop E exps acc =
     (if list_all (Compiles E) (concat (map expressionPatterns exps))
      then Ok (acc @ concat (map expressionRule exps)) else Panic)"
  by (induction exps arbitrary: acc)
     (simp_all add: MustNewRegexp_eq expressionRule_def expressionPatterns_def
        LabelSelectorOpIn_def LabelSelectorOpNotIn_def LabelSelectorOpExists_def
        LabelSelectorOpDoesNotExist_def)

lemma selectorRelabelConfigs_eq:
  "selectorRelabelConfigs E pm =
     (if list_all (Compiles E) (selectorPatterns pm) then Ok (selectorRules pm) else Panic)"
  by (auto simp add: selectorRelabelConfigs_def MustNewRegexp_eq matchLabelsLoop_eq
        matchExpressionsLoop_eq selectorRules_def selectorPatterns_def namespaceFilter_def
        identityRules_def list_all_iff)

lemma portRelabelConfigs_eq:
  "portRelabelConfigs E ep acc =
     (if StrVal (Port ep) \<noteq> [] then
        (if \<not> Compiles E (StrVal (Port ep)) then Err (InvalidPortName (StrVal (Port ep)))
         else if Compiles E ''(.+);(.+)'' then Ok (acc @ namedPortRules (StrVal (Port ep)))
         else Panic)
      else if IntVal (Port ep) \<noteq> 0 then Ok (acc @ numberedPortRules (IntVal (Port ep)))
      else Err MissingPort)"
  by (simp add: portRelabelConfigs_def NewRegexp_def MustNewRegexp_eq namedPortRules_def
        numberedPortRules_def)

lemma portRelabelConfigs_Ok:
  "portRelabelConfigs E ep acc = Ok rs \<Longrightarrow> rs = acc @ portRules ep"
  by (simp add: portRelabelConfigs_eq portRules_def split: if_splits)

lemma labelMappingLoop_eq:
  "labelMappingLoop E ms prefix acc =
     (case find (\<lambda>m. isPrometheusTargetLabel E (To m)) ms of
        Some m \<Rightarrow> Err (ReservedLabelCollision (From m) (To m))
      | None \<Rightarrow> Ok (acc @ map (mappingRule prefix) ms))"
  by (induction ms arbitrary: acc)
     (auto simp add: mappingRule_def Let_def split: option.splits)

lemma labelMappingRelabelConfigs_eq:
  "labelMappingRelabelConfigs E ms prefix =
     (case find (\<lambda>m. isPrometheusTargetLabel E (To m)) ms of
        Some m \<Rightarrow> Err (ReservedLabelCollision (From m) (To m))
      | None \<Rightarrow> Ok (map (mappingRule prefix) ms))"
  by (simp add: labelMappingRelabelConfigs_def labelMappingLoop_eq split: option.splits)

lemma labelMappingRelabelConfigs_not_Panic:
  "labelMappingRelabelConfigs E ms prefix \<noteq> Panic"
  by (simp add: labelMappingRelabelConfigs_eq split: option.splits)

lemma labelMappingRelabelConfigs_Ok:
  "labelMappingRelabelConfigs E ms prefix = Ok rs \<Longrightarrow> rs = map (mappingRule prefix) ms"
  by (simp add: labelMappingRelabelConfigs_eq split: option.splits)

text \<open>A job is returned only when every stage has returned its rules.\<close>

lemma endpontScrapeConfig_Ok_stages:
  assumes "endpontScrapeConfig E pm index = Ok cfg"
  obtains rs rs' ms d t where
    "index < length (Endpoints (Spec pm))"
    "selectorRelabelConfigs E pm = Ok rs"
    "portRelabelConfigs E (Endpoints (Spec pm) ! index) rs = Ok rs'"
    "labelMappingRelabelConfigs E (FromPod (TargetLabels (Spec pm)))
       ''__meta_kubernetes_pod_label_'' = Ok ms"
    "scrapeDurations E (Endpoints (Spec pm) ! index) = Ok (d, t)"
    "RelabelConfigs cfg = rs' @ ms" "ScrapeInterval cfg = d" "ScrapeTimeout cfg = t"
proof -
  let ?ep = "Endpoints (Spec pm) ! index"
  let ?lm = "labelMappingRelabelConfigs E (FromPod (TargetLabels (Spec pm)))
               ''__meta_kubernetes_pod_label_''"
  from assms have inb: "index < length (Endpoints (Spec pm))"
    by (simp add: endpontScrapeConfig_def split: if_splits)
  from assms inb obtain rs where rs: "selectorRelabelConfigs E pm = Ok rs"
    by (cases "selectorRelabelConfigs E pm") (simp_all add: endpontScrapeConfig_def Let_def)
  from assms inb rs obtain rs' where rs': "portRelabelConfigs E ?ep rs = Ok rs'"
    by (cases "portRelabelConfigs E ?ep rs") (simp_all add: endpontScrapeConfig_def Let_def)
  from assms inb rs rs' obtain ms where ms: "?lm = Ok ms"
    by (cases ?lm) (simp_all add: endpontScrapeConfig_def Let_def)
  from assms inb rs rs' ms obtain d t where dt: "scrapeDurations E ?ep = Ok (d, t)"
    by (cases "scrapeDurations E ?ep") (auto simp add: endpontScrapeConfig_def Let_def)
  from assms inb rs rs' ms dt
  have "RelabelConfigs cfg = rs' @ ms" "ScrapeInterval cfg = d" "ScrapeTimeout cfg = t"
    by (auto simp add: endpontScrapeConfig_def Let_def)
  with inb rs rs' ms dt show thesis by (rule that)
qed

lemma endpontScrapeConfig_rules:
  assumes "endpontScrapeConfig E pm index = Ok cfg"
  shows "RelabelConfigs cfg =
           selectorRules pm @ portRules (Endpoints (Spec pm) ! index)
             @ map (mappingRule ''__meta_kubernetes_pod_label_'')
                   (FromPod (TargetLabels (Spec pm)))"
proof -
  from assms obtain rs rs' ms where
    rs: "selectorRelabelConfigs E pm = Ok rs" and
    rs': "portRelabelConfigs E (Endpoints (Spec pm) ! index) rs = Ok rs'" and
    ms: "labelMappingRelabelConfigs E (FromPod (TargetLabels (Spec pm)))
           ''__meta_kubernetes_pod_label_'' = Ok ms" and
    cfg: "RelabelConfigs cfg = rs' @ ms"
    by (rule endpontScrapeConfig_Ok_stages)
  from rs have "rs = selectorRules pm"
    by (simp add: selectorRelabelConfigs_eq split: if_splits)
  with cfg portRelabelConfigs_Ok [OF rs'] labelMappingRelabelConfigs_Ok [OF ms]
  show ?thesis by simp
qed

text \<open>
  Two targets that differ in the selector only, and whose selector stages give the same
  result, give the same job.
\<close>

lemma endpontScrapeConfig_cong:
  assumes "selectorRelabelConfigs E pm' = selectorRelabelConfigs E pm"
    and "Endpoints (Spec pm') = Endpoints (Spec pm)"
    and "TargetLabels (Spec pm') = TargetLabels (Spec pm)"
    and "Namespace pm' = Namespace pm" and "Name pm' = Name pm"
  shows "endpontScrapeConfig E pm' index = endpontScrapeConfig E pm index"
  unfolding endpontScrapeConfig_def assms by (rule refl)

text \<open>The evaluation of the examples.\<close>

lemmas example_defs =
  endpontScrapeConfig_def selectorRelabelConfigs_def portRelabelConfigs_def
  labelMappingRelabelConfigs_def scrapeDurations_def MustNewRegexp_def NewRegexp_def
  isPrometheusTargetLabel_def
  exampleImports_def exampleTarget_def webEndpoint_def noPortEndpoint_def webJob_def
  webRules_def isLabelChar_def mapIndex_def IntOrString_String_def
  LabelSelectorOpIn_def LabelSelectorOpNotIn_def LabelSelectorOpExists_def
  LabelSelectorOpDoesNotExist_def

lemma exampleTarget_Endpoints [simp]: "Endpoints (Spec (exampleTarget eps)) = eps"
  by (simp add: exampleTarget_def)

lemma webJob_compiled:
  "endpontScrapeConfig exampleImports (exampleTarget [webEndpoint]) 0 = Ok webJob"
  by (simp add: example_defs)

section \<open>The order of the rules\<close>

text \<open>
  C5. For every successfully compiled endpoint, the rule sequence of its job is, in
  this order: the Keep rule on the target's namespace; the selector rules, that is the
  exact-match Keep rules in the order of the sorted keys and then the expression rules
  in the order of declaration; the two identity rules (the namespace rewrite, then the
  label \<open>job\<close> set to the target's name); the port rules; the label-mapping Replace
  rules in the order of declaration.
\<close>

theorem rules_in_stage_order:
  assumes "endpontScrapeConfig E pm index = Ok cfg"
  shows "RelabelConfigs cfg =
           [namespaceFilter pm]
           @ (map (exactMatchRule (MatchLabels (Selector (Spec pm))))
                  (sort (map fst (MatchLabels (Selector (Spec pm)))))
              @ concat (map expressionRule (MatchExpressions (Selector (Spec pm)))))
           @ identityRules pm
           @ portRules (Endpoints (Spec pm) ! index)
           @ map (mappingRule ''__meta_kubernetes_pod_label_'')
                 (FromPod (TargetLabels (Spec pm)))"
  using endpontScrapeConfig_rules [OF assms] by (simp add: selectorRules_def)

text \<open>
  The end-to-end scenario of the specification: its six rules, in its order.
\<close>

theorem rules_in_stage_order_witness:
  "endpontScrapeConfig exampleImports (exampleTarget [webEndpoint]) 0 = Ok webJob
   \<and> RelabelConfigs webJob =
       [namespaceFilter (exampleTarget [webEndpoint]),
        exactMatchRule [(''app'', ''x'')] ''app'']
       @ identityRules (exampleTarget [webEndpoint])
       @ namedPortRules ''web''"
proof -
  have h: "endpontScrapeConfig exampleImports (exampleTarget [webEndpoint]) 0 = Ok webJob"
    by (simp add: example_defs)
  show ?thesis
    using h rules_in_stage_order [OF h]
    by (simp add: exampleTarget_def webEndpoint_def portRules_def)
qed

text \<open>
  C6. The Keep rules of the exact-match labels stand in the lexicographically sorted
  order of the label keys, whatever the order in which the map is visited: after the
  namespace filter come the rules of the sorted keys, and two entry lists of the same
  map give the same job.
\<close>

theorem exact_match_rules_sorted:
  "(endpontScrapeConfig E pm index = Ok cfg \<longrightarrow>
      take (length (MatchLabels (Selector (Spec pm)))) (tl (RelabelConfigs cfg))
        = map (exactMatchRule (MatchLabels (Selector (Spec pm))))
              (sort (map fst (MatchLabels (Selector (Spec pm))))))
   \<and> sorted (sort (map fst (MatchLabels (Selector (Spec pm)))))
   \<and> set (sort (map fst (MatchLabels (Selector (Spec pm)))))
       = fst ` set (MatchLabels (Selector (Spec pm)))
   \<and> (distinct (map fst ml') \<and> distinct (map fst ml) \<and> map_of ml' = map_of ml \<longrightarrow>
        endpontScrapeConfig E (withMatchLabels pm ml') index
          = endpontScrapeConfig E (withMatchLabels pm ml) index)"
proof (intro conjI impI)
  assume "endpontScrapeConfig E pm index = Ok cfg"
  from endpontScrapeConfig_rules [OF this]
  show "take (length (MatchLabels (Selector (Spec pm)))) (tl (RelabelConfigs cfg))
        = map (exactMatchRule (MatchLabels (Selector (Spec pm))))
              (sort (map fst (MatchLabels (Selector (Spec pm)))))"
    by (simp add: selectorRules_def)
next
  show "sorted (sort (map fst (MatchLabels (Selector (Spec pm)))))" by simp
next
  show "set (sort (map fst (MatchLabels (Selector (Spec pm)))))
          = fst ` set (MatchLabels (Selector (Spec pm)))"
    by simp
next
  assume a: "distinct (map fst ml') \<and> distinct (map fst ml) \<and> map_of ml' = map_of ml"
  then have "dom (map_of ml') = dom (map_of ml)" by simp
  then have "set (map fst ml') = set (map fst ml)"
    by (simp add: dom_map_of_conv_image_fst)
  with a have k: "sort (map fst ml') = sort (map fst ml)"
    by (intro sorted_distinct_set_unique) simp_all
  from a have "\<And>key. mapIndex ml' key = mapIndex ml key" by (simp add: mapIndex_def)
  then have m: "mapIndex ml' = mapIndex ml" by (rule ext)
  then have r: "exactMatchRule ml' = exactMatchRule ml"
    by (intro ext) (simp add: exactMatchRule_def)
  have "selectorRelabelConfigs E (withMatchLabels pm ml')
          = selectorRelabelConfigs E (withMatchLabels pm ml)"
    by (simp add: selectorRelabelConfigs_eq selectorRules_def selectorPatterns_def
          withMatchLabels_def k m r namespaceFilter_def identityRules_def)
  then show "endpontScrapeConfig E (withMatchLabels pm ml') index
          = endpontScrapeConfig E (withMatchLabels pm ml) index"
    by (rule endpontScrapeConfig_cong) (simp_all add: withMatchLabels_def)
qed

text \<open>
  The example of the specification: with \<^verbatim>\<open>{b: "2", a: "1"}\<close> the rule of \<^verbatim>\<open>a\<close>
  comes before the rule of \<^verbatim>\<open>b\<close>, in either order of visiting the map.
\<close>

theorem exact_match_rules_sorted_witness:
  "endpontScrapeConfig exampleImports
      (withMatchLabels (exampleTarget [webEndpoint]) baLabels) 0 = Ok abJob
   \<and> take 2 (tl (RelabelConfigs abJob))
       = [exactMatchRule baLabels ''a'', exactMatchRule baLabels ''b'']
   \<and> distinct (map fst (rev baLabels)) \<and> distinct (map fst baLabels)
   \<and> map_of (rev baLabels) = map_of baLabels
   \<and> endpontScrapeConfig exampleImports
        (withMatchLabels (exampleTarget [webEndpoint]) (rev baLabels)) 0 = Ok abJob"
proof -
  let ?pm = "withMatchLabels (exampleTarget [webEndpoint]) baLabels"
  have h: "endpontScrapeConfig exampleImports ?pm 0 = Ok abJob"
    by (simp add: example_defs withMatchLabels_def baLabels_def abJob_def)
  have d: "distinct (map fst (rev baLabels)) \<and> distinct (map fst baLabels)
           \<and> map_of (rev baLabels) = map_of baLabels"
    by (auto simp add: baLabels_def)
  have w: "withMatchLabels ?pm ml = withMatchLabels (exampleTarget [webEndpoint]) ml" for ml
    by (simp add: withMatchLabels_def)
  have l: "MatchLabels (Selector (Spec ?pm)) = baLabels"
    by (simp add: withMatchLabels_def)
  have s: "sort (map fst baLabels) = [''a'', ''b'']" "length baLabels = 2"
    by (simp_all add: baLabels_def)
  from exact_match_rules_sorted [of exampleImports ?pm 0 abJob "rev baLabels" baLabels] h d
  have "take 2 (tl (RelabelConfigs abJob))
       = [exactMatchRule baLabels ''a'', exactMatchRule baLabels ''b'']"
    and "endpontScrapeConfig exampleImports
        (withMatchLabels (exampleTarget [webEndpoint]) (rev baLabels)) 0 = Ok abJob"
    unfolding w l s by simp_all
  with h d show ?thesis by blast
qed

section \<open>Operators that the selector compiler does not know\<close>

text \<open>
  C7. A selector expression whose operator is none of \<open>In\<close>, \<open>NotIn\<close>, \<open>Exists\<close>,
  \<open>DoesNotExist\<close> gives no rule and no failure: the loop goes on with the rules it
  had, and the job is the one of the target without that expression.
\<close>

theorem unrecognized_operator_ignored:
  assumes "Operator exp \<notin> {LabelSelectorOpIn, LabelSelectorOpNotIn,
                           LabelSelectorOpExists, LabelSelectorOpDoesNotExist}"
  shows "matchExpressionsLoop E (exp # exps) relabelCfgs
           = matchExpressionsLoop E exps relabelCfgs
       \<and> endpontScrapeConfig E (withExpressions pm (xs @ exp # ys)) index
           = endpontScrapeConfig E (withExpressions pm (xs @ ys)) index"
proof
  from assms show "matchExpressionsLoop E (exp # exps) relabelCfgs
                     = matchExpressionsLoop E exps relabelCfgs"
    by simp
next
  from assms have "expressionRule exp = []" "expressionPatterns exp = []"
    by (simp_all add: expressionRule_def expressionPatterns_def LabelSelectorOpIn_def
          LabelSelectorOpNotIn_def LabelSelectorOpExists_def LabelSelectorOpDoesNotExist_def)
  then have "selectorRelabelConfigs E (withExpressions pm (xs @ exp # ys))
          = selectorRelabelConfigs E (withExpressions pm (xs @ ys))"
    by (simp add: selectorRelabelConfigs_eq selectorRules_def selectorPatterns_def
          withExpressions_def namespaceFilter_def identityRules_def)
  then show "endpontScrapeConfig E (withExpressions pm (xs @ exp # ys)) index
           = endpontScrapeConfig E (withExpressions pm (xs @ ys)) index"
    by (rule endpontScrapeConfig_cong) (simp_all add: withExpressions_def)
qed

theorem unrecognized_operator_ignored_witness:
  "Operator matchesExpression \<notin> {LabelSelectorOpIn, LabelSelectorOpNotIn,
                                  LabelSelectorOpExists, LabelSelectorOpDoesNotExist}
   \<and> endpontScrapeConfig exampleImports
        (withExpressions (exampleTarget [webEndpoint]) [matchesExpression]) 0 = Ok webJob"
proof -
  have h: "Operator matchesExpression \<notin> {LabelSelectorOpIn, LabelSelectorOpNotIn,
                                  LabelSelectorOpExists, LabelSelectorOpDoesNotExist}"
    by (simp add: matchesExpression_def LabelSelectorOpIn_def LabelSelectorOpNotIn_def
          LabelSelectorOpExists_def LabelSelectorOpDoesNotExist_def)
  have e: "withExpressions (exampleTarget [webEndpoint]) [] = exampleTarget [webEndpoint]"
    by (simp add: withExpressions_def exampleTarget_def)
  show ?thesis
    using h webJob_compiled
      unrecognized_operator_ignored [OF h, of exampleImports "[]" "[]"
        "exampleTarget [webEndpoint]" "[]" "[]" 0]
    by (simp add: e)
qed

section \<open>Validation\<close>

text \<open>
  C8. Update validation gives the same result whatever the prior state is, and that
  result is the one of create validation on the new state; delete validation always
  succeeds.
\<close>

theorem validation_ignores_prior_state:
  "ValidateUpdate E pm old1 = ValidateUpdate E pm old2
   \<and> ValidateUpdate E pm old1 = ValidateCreate E pm
   \<and> ValidateDelete pm = Ok ()"
  by (simp add: ValidateUpdate_def ValidateDelete_def)

theorem validation_ignores_prior_state_witness:
  "ValidateUpdate exampleImports (exampleTarget [webEndpoint]) (exampleTarget []) = Ok ()
   \<and> ValidateUpdate exampleImports (exampleTarget [webEndpoint])
        (exampleTarget [webEndpoint, webEndpoint]) = Ok ()
   \<and> ValidateDelete (exampleTarget [webEndpoint]) = Ok ()"
proof -
  have "ValidateCreate exampleImports (exampleTarget [webEndpoint]) = Ok ()"
    by (simp add: ValidateCreate_def ScrapeConfigs_def webJob_compiled)
  then show ?thesis
    using validation_ignores_prior_state [of exampleImports "exampleTarget [webEndpoint]"
            "exampleTarget []" "exampleTarget [webEndpoint, webEndpoint]"]
    by metis
qed

section \<open>Label names\<close>

lemma isLabelChar_iff:
  "isLabelChar c \<longleftrightarrow>
     c \<in> set ''abcdefghijklmnopqrstuvwxyzABCDEFGHIJKLMNOPQRSTUVWXYZ0123456789_''"
  by (cases c) (simp add: isLabelChar_def, argo)

lemma isLabelChar_underscore: "isLabelChar (CHR ''_'')"
  by (simp add: isLabelChar_def)

lemma isLabelChar_ascii: "isLabelChar c \<Longrightarrow> (of_char c :: nat) < 0x80"
  by (auto simp add: isLabelChar_def less_eq_char_def)

lemma sanitizeLabelName_all: "list_all isLabelChar (sanitizeLabelName name)"
  by (induction name rule: sanitizeLabelName.induct) (simp_all add: isLabelChar_underscore)






lemma sanitize_idem: "sanitizeLabelName (sanitizeLabelName name) = sanitizeLabelName name"
proof -
  have "list_all isLabelChar xs \<Longrightarrow> sanitizeLabelName xs = xs" for xs
    by (induction xs) (auto dest: isLabelChar_ascii)
  then show ?thesis using sanitizeLabelName_all by blast
qed




section \<open>The port\<close>

text \<open>
  C3, as amended. The port is resolved in this order: with a port name, whatever the
  number is, the rules are the ones of the name (or the name is refused as a pattern);
  with no name and a number other than zero, the rules are the ones of the number;
  with neither, the port stage fails with the missing-port error, and this error is
  the result of compiling the endpoint whenever the namespace filter and the selector
  rules before it were built.
\<close>

theorem port_resolution_branches:
  "(StrVal (Port ep) \<noteq> [] \<longrightarrow>
      portRelabelConfigs E ep relabelCfgs =
        (if \<not> Compiles E (StrVal (Port ep)) then Err (InvalidPortName (StrVal (Port ep)))
         else if Compiles E ''(.+);(.+)''
         then Ok (relabelCfgs @ namedPortRules (StrVal (Port ep)))
         else Panic))
   \<and> (StrVal (Port ep) = [] \<and> IntVal (Port ep) \<noteq> 0 \<longrightarrow>
        portRelabelConfigs E ep relabelCfgs
          = Ok (relabelCfgs @ numberedPortRules (IntVal (Port ep))))
   \<and> (StrVal (Port ep) = [] \<and> IntVal (Port ep) = 0 \<longrightarrow>
        portRelabelConfigs E ep relabelCfgs = Err MissingPort)
   \<and> (index < length (Endpoints (Spec pm)) \<and> Endpoints (Spec pm) ! index = ep \<longrightarrow>
        (StrVal (Port ep) = [] \<and> IntVal (Port ep) = 0
           \<and> selectorRelabelConfigs E pm = Ok rs \<longrightarrow>
           endpontScrapeConfig E pm index = Err MissingPort)
        \<and> (endpontScrapeConfig E pm index = Ok cfg \<longrightarrow>
             (StrVal (Port ep) \<noteq> [] \<longrightarrow>
                RelabelConfigs cfg =
                  selectorRules pm @ namedPortRules (StrVal (Port ep))
                  @ map (mappingRule ''__meta_kubernetes_pod_label_'')
                        (FromPod (TargetLabels (Spec pm))))
             \<and> (StrVal (Port ep) = [] \<longrightarrow>
                  IntVal (Port ep) \<noteq> 0
                  \<and> RelabelConfigs cfg =
                      selectorRules pm @ numberedPortRules (IntVal (Port ep))
                      @ map (mappingRule ''__meta_kubernetes_pod_label_'')
                            (FromPod (TargetLabels (Spec pm))))))"
proof (intro conjI impI)
  assume "StrVal (Port ep) \<noteq> []"
  then show "portRelabelConfigs E ep relabelCfgs =
        (if \<not> Compiles E (StrVal (Port ep)) then Err (InvalidPortName (StrVal (Port ep)))
         else if Compiles E ''(.+);(.+)''
         then Ok (relabelCfgs @ namedPortRules (StrVal (Port ep)))
         else Panic)"
    by (simp add: portRelabelConfigs_eq)
next
  assume "StrVal (Port ep) = [] \<and> IntVal (Port ep) \<noteq> 0"
  then show "portRelabelConfigs E ep relabelCfgs
          = Ok (relabelCfgs @ numberedPortRules (IntVal (Port ep)))"
    by (simp add: portRelabelConfigs_eq)
next
  assume "StrVal (Port ep) = [] \<and> IntVal (Port ep) = 0"
  then show "portRelabelConfigs E ep relabelCfgs = Err MissingPort"
    by (simp add: portRelabelConfigs_eq)
next
  assume "index < length (Endpoints (Spec pm)) \<and> Endpoints (Spec pm) ! index = ep"
    and "StrVal (Port ep) = [] \<and> IntVal (Port ep) = 0
           \<and> selectorRelabelConfigs E pm = Ok rs"
  then show "endpontScrapeConfig E pm index = Err MissingPort"
    by (simp add: endpontScrapeConfig_def portRelabelConfigs_eq)
next
  assume i: "index < length (Endpoints (Spec pm)) \<and> Endpoints (Spec pm) ! index = ep"
    and ok: "endpontScrapeConfig E pm index = Ok cfg" and "StrVal (Port ep) \<noteq> []"
  with endpontScrapeConfig_rules [OF ok]
  show "RelabelConfigs cfg =
                  selectorRules pm @ namedPortRules (StrVal (Port ep))
                  @ map (mappingRule ''__meta_kubernetes_pod_label_'')
                        (FromPod (TargetLabels (Spec pm)))"
    by (simp add: portRules_def)
next
  assume i: "index < length (Endpoints (Spec pm)) \<and> Endpoints (Spec pm) ! index = ep"
    and ok: "endpontScrapeConfig E pm index = Ok cfg" and s: "StrVal (Port ep) = []"
  from ok obtain rs rs' where "portRelabelConfigs E (Endpoints (Spec pm) ! index) rs = Ok rs'"
    by (rule endpontScrapeConfig_Ok_stages)
  with i s show "IntVal (Port ep) \<noteq> 0"
    by (auto simp add: portRelabelConfigs_eq split: if_splits)
next
  assume i: "index < length (Endpoints (Spec pm)) \<and> Endpoints (Spec pm) ! index = ep"
    and ok: "endpontScrapeConfig E pm index = Ok cfg" and s: "StrVal (Port ep) = []"
  with endpontScrapeConfig_rules [OF ok]
  show "RelabelConfigs cfg =
                      selectorRules pm @ numberedPortRules (IntVal (Port ep))
                      @ map (mappingRule ''__meta_kubernetes_pod_label_'')
                            (FromPod (TargetLabels (Spec pm)))"
    by (simp add: portRules_def)
qed

theorem port_resolution_branches_witness:
  "StrVal (Port bothPortsEndpoint) \<noteq> [] \<and> IntVal (Port bothPortsEndpoint) \<noteq> 0
   \<and> portRelabelConfigs exampleImports bothPortsEndpoint [] = Ok (namedPortRules ''web'')
   \<and> RelabelConfigs webJob
       = selectorRules (exampleTarget [webEndpoint]) @ namedPortRules ''web''
   \<and> portRelabelConfigs exampleImports numberEndpoint []
       = Ok [\<lparr>Action = Replace, SourceLabels = [''__meta_kubernetes_pod_name''],
              Regex = None, Replacement = ''$1:8080'', TargetLabel = ''instance''\<rparr>,
             \<lparr>Action = Replace, SourceLabels = [''__meta_kubernetes_pod_ip''],
              Regex = None, Replacement = ''$1:8080'', TargetLabel = ''__address__''\<rparr>]
   \<and> portRelabelConfigs exampleImports (noPortEndpoint ''30s'' []) [] = Err MissingPort
   \<and> endpontScrapeConfig exampleImports (exampleTarget [noPortEndpoint ''30s'' []]) 0
       = Err MissingPort"
proof -
  let ?none = "noPortEndpoint ''30s'' []"
  note t1 = port_resolution_branches [where ep = bothPortsEndpoint and E = exampleImports
      and relabelCfgs = "[]" and index = 0 and pm = "exampleTarget [bothPortsEndpoint]"
      and cfg = webJob and rs = "selectorRules (exampleTarget [bothPortsEndpoint])"]
  note t2 = port_resolution_branches [where ep = webEndpoint and E = exampleImports
      and relabelCfgs = "[]" and index = 0 and pm = "exampleTarget [webEndpoint]"
      and cfg = webJob and rs = "selectorRules (exampleTarget [webEndpoint])"]
  note t3 = port_resolution_branches [where ep = numberEndpoint and E = exampleImports
      and relabelCfgs = "[]" and index = 0 and pm = "exampleTarget [numberEndpoint]"
      and cfg = webJob and rs = "selectorRules (exampleTarget [numberEndpoint])"]
  note t4 = port_resolution_branches [where ep = ?none and E = exampleImports
      and relabelCfgs = "[]" and index = 0 and pm = "exampleTarget [?none]"
      and cfg = webJob and rs = "selectorRules (exampleTarget [?none])"]
  have b: "StrVal (Port bothPortsEndpoint) \<noteq> []" "IntVal (Port bothPortsEndpoint) \<noteq> 0"
    by (simp_all add: bothPortsEndpoint_def)
  have c: "Compiles exampleImports ''web''"
          "Compiles exampleImports ''(.+);(.+)''"
    by (simp_all add: exampleImports_def isLabelChar_def)
  have n: "StrVal (Port bothPortsEndpoint) = ''web''" "StrVal (Port webEndpoint) = ''web''"
    by (simp_all add: bothPortsEndpoint_def webEndpoint_def)
  from t1 b(1) have "portRelabelConfigs exampleImports bothPortsEndpoint [] =
        (if \<not> Compiles exampleImports (StrVal (Port bothPortsEndpoint))
         then Err (InvalidPortName (StrVal (Port bothPortsEndpoint)))
         else if Compiles exampleImports ''(.+);(.+)''
         then Ok ([] @ namedPortRules (StrVal (Port bothPortsEndpoint)))
         else Panic)"
    by blast
  then have 1: "portRelabelConfigs exampleImports bothPortsEndpoint [] = Ok (namedPortRules ''web'')"
    by (simp add: c n)
  have w: "0 < length (Endpoints (Spec (exampleTarget [webEndpoint])))
     \<and> Endpoints (Spec (exampleTarget [webEndpoint])) ! 0 = webEndpoint"
    "StrVal (Port webEndpoint) \<noteq> []"
    by (simp_all add: webEndpoint_def)
  from t2 w webJob_compiled have "RelabelConfigs webJob =
                  selectorRules (exampleTarget [webEndpoint]) @ namedPortRules (StrVal (Port webEndpoint))
                  @ map (mappingRule ''__meta_kubernetes_pod_label_'')
                        (FromPod (TargetLabels (Spec (exampleTarget [webEndpoint]))))"
    by blast
  then have 2: "RelabelConfigs webJob
       = selectorRules (exampleTarget [webEndpoint]) @ namedPortRules ''web''"
    by (simp add: n exampleTarget_def)
  have m: "StrVal (Port numberEndpoint) = [] \<and> IntVal (Port numberEndpoint) \<noteq> 0"
    by (simp add: numberEndpoint_def)
  have i: "numberedPortRules (IntVal (Port numberEndpoint))
       = [\<lparr>Action = Replace, SourceLabels = [''__meta_kubernetes_pod_name''],
              Regex = None, Replacement = ''$1:8080'', TargetLabel = ''instance''\<rparr>,
             \<lparr>Action = Replace, SourceLabels = [''__meta_kubernetes_pod_ip''],
              Regex = None, Replacement = ''$1:8080'', TargetLabel = ''__address__''\<rparr>]"
    by (simp add: numberedPortRules_def numberEndpoint_def Itoa_def natToDec.simps)
  from t3 m have "portRelabelConfigs exampleImports numberEndpoint []
       = Ok ([] @ numberedPortRules (IntVal (Port numberEndpoint)))"
    by blast
  then have 3: "portRelabelConfigs exampleImports numberEndpoint []
       = Ok [\<lparr>Action = Replace, SourceLabels = [''__meta_kubernetes_pod_name''],
              Regex = None, Replacement = ''$1:8080'', TargetLabel = ''instance''\<rparr>,
             \<lparr>Action = Replace, SourceLabels = [''__meta_kubernetes_pod_ip''],
              Regex = None, Replacement = ''$1:8080'', TargetLabel = ''__address__''\<rparr>]"
    by (simp only: i append_Nil)
  have z: "StrVal (Port ?none) = [] \<and> IntVal (Port ?none) = 0"
    "0 < length (Endpoints (Spec (exampleTarget [?none])))
     \<and> Endpoints (Spec (exampleTarget [?none])) ! 0 = ?none"
    by (simp_all add: noPortEndpoint_def)
  have p: "selectorRelabelConfigs exampleImports (exampleTarget [?none])
             = Ok (selectorRules (exampleTarget [?none]))"
    by (simp add: selectorRelabelConfigs_eq exampleTarget_def selectorPatterns_def
          exampleImports_def isLabelChar_def mapIndex_def)
  from t4 z have 4: "portRelabelConfigs exampleImports ?none [] = Err MissingPort"
    by blast
  from t4 z p
  have 5: "endpontScrapeConfig exampleImports (exampleTarget [?none]) 0 = Err MissingPort"
    by blast
  from b 1 2 3 4 5 show ?thesis by (intro conjI)
qed

text \<open>
  C3 as stated does not hold: an endpoint with neither port field set, in a target
  whose selector has the label value \<^verbatim>\<open>x(\<close>, a pattern with an unclosed
  parenthesis, is not refused with the missing-port error:
  \<^verbatim>\<open>relabel.MustNewRegexp\<close> panics on the label value before the port is read.
\<close>

theorem port_resolution_branches_counterexample:
  "StrVal (Port (noPortEndpoint ''30s'' [])) = []
   \<and> IntVal (Port (noPortEndpoint ''30s'' [])) = 0
   \<and> \<not> Compiles exampleImports ''x(''
   \<and> endpontScrapeConfig exampleImports
        (withMatchLabels (exampleTarget [noPortEndpoint ''30s'' []]) [(''app'', ''x('')]) 0
       = Panic
   \<and> Panic \<noteq> (Err MissingPort :: ScrapeConfig result)"
  by (simp add: example_defs withMatchLabels_def)

section \<open>The interval and the timeout\<close>

text \<open>
  C4, as amended. For an endpoint whose interval parses and whose selector rules, port
  rules and label-mapping rules were built without error: with no timeout the job is
  returned and its timeout is the interval; with a timeout that parses to a duration
  greater than the interval, the compilation fails with the timeout-exceeds-interval
  error.
\<close>

theorem timeout_defaults_to_interval:
  fixes pm :: PodMonitoring and index :: nat and ep :: ScrapeEndpoint
  defines "ep \<equiv> Endpoints (Spec pm) ! index"
  assumes "index < length (Endpoints (Spec pm))"
    and "ParseDuration E (Interval ep) = Some interval"
    and "selectorRelabelConfigs E pm = Ok rs"
    and "portRelabelConfigs E ep rs = Ok rs'"
    and "labelMappingRelabelConfigs E (FromPod (TargetLabels (Spec pm)))
           ''__meta_kubernetes_pod_label_'' = Ok ms"
  shows "(Timeout ep = [] \<longrightarrow>
            endpontScrapeConfig E pm index =
              Ok \<lparr>JobName = ''PodMonitoring/'' @ Namespace pm @ ''/'' @ Name pm @ ''/''
                              @ IntOrString_String (Port ep),
                  ServiceDiscoveryConfigs = discoveryCfgs,
                  MetricsPath = (if Path ep \<noteq> [] then Path ep else ''/metrics''),
                  ScrapeInterval = interval,
                  ScrapeTimeout = interval,
                  RelabelConfigs = rs' @ ms\<rparr>)
       \<and> (Timeout ep \<noteq> [] \<and> ParseDuration E (Timeout ep) = Some timeout
            \<and> sint interval < sint timeout \<longrightarrow>
            endpontScrapeConfig E pm index = Err (TimeoutExceedsInterval timeout interval))"
  using assms(2-) unfolding ep_def
  by (simp add: endpontScrapeConfig_def scrapeDurations_def Let_def)

theorem timeout_defaults_to_interval_witness:
  "endpontScrapeConfig exampleImports (exampleTarget [webEndpoint]) 0 = Ok webJob
   \<and> ScrapeInterval webJob = 30000000000 \<and> ScrapeTimeout webJob = 30000000000
   \<and> sint (30000000000 :: Duration) < sint (45000000000 :: Duration)
   \<and> endpontScrapeConfig exampleImports (exampleTarget [webEndpoint\<lparr>Timeout := ''45s''\<rparr>]) 0
       = Err (TimeoutExceedsInterval 45000000000 30000000000)"
proof -
  let ?late = "webEndpoint\<lparr>Timeout := ''45s''\<rparr>"
  have s: "selectorRelabelConfigs exampleImports (exampleTarget eps)
             = Ok (selectorRules (exampleTarget [webEndpoint]))" for eps
    by (simp add: selectorRelabelConfigs_eq selectorPatterns_def selectorRules_def
          exampleTarget_def exampleImports_def isLabelChar_def mapIndex_def
          namespaceFilter_def identityRules_def)
  have p: "portRelabelConfigs exampleImports webEndpoint acc = Ok (acc @ namedPortRules ''web'')"
          "portRelabelConfigs exampleImports ?late acc = Ok (acc @ namedPortRules ''web'')" for acc
    by (simp_all add: portRelabelConfigs_eq webEndpoint_def exampleImports_def isLabelChar_def)
  have m: "labelMappingRelabelConfigs exampleImports
             (FromPod (TargetLabels (Spec (exampleTarget eps)))) ''__meta_kubernetes_pod_label_''
           = Ok []" for eps
    by (simp add: labelMappingRelabelConfigs_def exampleTarget_def)
  have d: "ParseDuration exampleImports (Interval webEndpoint) = Some 30000000000"
          "ParseDuration exampleImports (Interval ?late) = Some 30000000000"
          "ParseDuration exampleImports (Timeout ?late) = Some 45000000000"
          "Timeout webEndpoint = []" "Timeout ?late \<noteq> []"
    by (simp_all add: exampleImports_def webEndpoint_def)
  have lt: "sint (30000000000 :: Duration) < sint (45000000000 :: Duration)" by simp
  have 1: "endpontScrapeConfig exampleImports (exampleTarget [webEndpoint]) 0 = Ok webJob"
    using timeout_defaults_to_interval [where index = 0 and pm = "exampleTarget [webEndpoint]"
            and E = exampleImports and interval = 30000000000
            and rs = "selectorRules (exampleTarget [webEndpoint])"
            and rs' = "selectorRules (exampleTarget [webEndpoint]) @ namedPortRules ''web''"
            and ms = "[]" and timeout = 45000000000] d(1,4) s p(1) m
    by (simp add: webJob_def webRules_def exampleTarget_def webEndpoint_def
          IntOrString_String_def selectorRules_def namespaceFilter_def exactMatchRule_def
          identityRules_def namedPortRules_def mapIndex_def isLabelChar_def)
  have 2: "endpontScrapeConfig exampleImports (exampleTarget [?late]) 0
       = Err (TimeoutExceedsInterval 45000000000 30000000000)"
    using timeout_defaults_to_interval [where index = 0 and pm = "exampleTarget [?late]"
            and E = exampleImports and interval = 30000000000
            and rs = "selectorRules (exampleTarget [webEndpoint])"
            and rs' = "selectorRules (exampleTarget [webEndpoint]) @ namedPortRules ''web''"
            and ms = "[]" and timeout = 45000000000] d(2,3,5) s p(2) m lt
    by simp
  from 1 2 lt show ?thesis by (simp add: webJob_def)
qed

text \<open>
  C4 as stated does not hold: an endpoint with the interval \<^verbatim>\<open>30s\<close>, no timeout and
  no port is refused for its port, and so is one with the timeout \<^verbatim>\<open>45s\<close>: the
  port is resolved before the durations are read.
\<close>

theorem timeout_defaults_to_interval_counterexample:
  "ParseDuration exampleImports (Interval (noPortEndpoint ''30s'' [])) = Some 30000000000
   \<and> Timeout (noPortEndpoint ''30s'' []) = []
   \<and> endpontScrapeConfig exampleImports (exampleTarget [noPortEndpoint ''30s'' []]) 0
       = Err MissingPort
   \<and> ParseDuration exampleImports (Interval (noPortEndpoint ''30s'' ''45s'')) = Some 30000000000
   \<and> ParseDuration exampleImports (Timeout (noPortEndpoint ''30s'' ''45s'')) = Some 45000000000
   \<and> sint (30000000000 :: Duration) < sint (45000000000 :: Duration)
   \<and> endpontScrapeConfig exampleImports (exampleTarget [noPortEndpoint ''30s'' ''45s'']) 0
       = Err MissingPort"
  by (simp add: example_defs)

text \<open>
  C10, as amended. For an endpoint whose interval is the empty string, which
  \<^verbatim>\<open>prommodel.ParseDuration\<close> refuses, no job is ever returned: the interval is not
  defaulted. When the namespace filter and the selector rules were built, the error
  is the one of the port stage if the port is refused; else the one of the label
  mappings, wrapped as invalid target labels, if a mapping is refused; else the
  invalid-duration error of the interval.
\<close>

theorem empty_interval_rejected:
  fixes pm :: PodMonitoring and index :: nat and ep :: ScrapeEndpoint
  defines "ep \<equiv> Endpoints (Spec pm) ! index"
  assumes "ParseDuration E [] = None"
    and "index < length (Endpoints (Spec pm))"
    and "Interval ep = []"
  shows "endpontScrapeConfig E pm index \<noteq> Ok cfg
       \<and> (selectorRelabelConfigs E pm = Ok rs \<and> portRelabelConfigs E ep rs = Err e \<longrightarrow>
            endpontScrapeConfig E pm index = Err e)
       \<and> (selectorRelabelConfigs E pm = Ok rs \<and> portRelabelConfigs E ep rs = Ok rs'
            \<and> labelMappingRelabelConfigs E (FromPod (TargetLabels (Spec pm)))
                 ''__meta_kubernetes_pod_label_'' = Err e' \<longrightarrow>
            endpontScrapeConfig E pm index = Err (InvalidTargetLabels e'))
       \<and> (selectorRelabelConfigs E pm = Ok rs \<and> portRelabelConfigs E ep rs = Ok rs'
            \<and> labelMappingRelabelConfigs E (FromPod (TargetLabels (Spec pm)))
                 ''__meta_kubernetes_pod_label_'' = Ok ms \<longrightarrow>
            endpontScrapeConfig E pm index = Err InvalidScrapeInterval)"
proof (intro conjI)
  show "endpontScrapeConfig E pm index \<noteq> Ok cfg"
  proof
    assume "endpontScrapeConfig E pm index = Ok cfg"
    then obtain d t where "scrapeDurations E (Endpoints (Spec pm) ! index) = Ok (d, t)"
      by (rule endpontScrapeConfig_Ok_stages)
    with assms(2,4) show False
      by (simp add: scrapeDurations_def ep_def)
  qed
next
  from assms(3) show "selectorRelabelConfigs E pm = Ok rs \<and> portRelabelConfigs E ep rs = Err e
            \<longrightarrow> endpontScrapeConfig E pm index = Err e"
    unfolding ep_def by (simp add: endpontScrapeConfig_def Let_def)
next
  from assms(3) show "selectorRelabelConfigs E pm = Ok rs \<and> portRelabelConfigs E ep rs = Ok rs'
            \<and> labelMappingRelabelConfigs E (FromPod (TargetLabels (Spec pm)))
                 ''__meta_kubernetes_pod_label_'' = Err e' \<longrightarrow>
            endpontScrapeConfig E pm index = Err (InvalidTargetLabels e')"
    unfolding ep_def by (simp add: endpontScrapeConfig_def Let_def)
next
  from assms(2-) show "selectorRelabelConfigs E pm = Ok rs \<and> portRelabelConfigs E ep rs = Ok rs'
            \<and> labelMappingRelabelConfigs E (FromPod (TargetLabels (Spec pm)))
                 ''__meta_kubernetes_pod_label_'' = Ok ms \<longrightarrow>
            endpontScrapeConfig E pm index = Err InvalidScrapeInterval"
    unfolding ep_def
    by (simp add: endpontScrapeConfig_def scrapeDurations_def Let_def)
qed

text \<open>
  The three cases at the endpoint \<^verbatim>\<open>{port: "web"}\<close> with no interval: as it is; with
  no port either; and in a target with a mapping to the reserved label \<^verbatim>\<open>namespace\<close>.
\<close>

theorem empty_interval_rejected_witness:
  "ParseDuration exampleImports [] = None
   \<and> Interval (webEndpoint\<lparr>Interval := []\<rparr>) = []
   \<and> endpontScrapeConfig exampleImports (exampleTarget [webEndpoint\<lparr>Interval := []\<rparr>]) 0
       = Err InvalidScrapeInterval
   \<and> Interval (noPortEndpoint [] []) = []
   \<and> endpontScrapeConfig exampleImports (exampleTarget [noPortEndpoint [] []]) 0
       = Err MissingPort
   \<and> endpontScrapeConfig exampleImports
        ((exampleTarget [webEndpoint\<lparr>Interval := []\<rparr>])
           \<lparr>Spec := (Spec (exampleTarget [webEndpoint\<lparr>Interval := []\<rparr>]))
              \<lparr>TargetLabels := \<lparr>FromPod = [\<lparr>From = ''ns'', To = ''namespace''\<rparr>]\<rparr>\<rparr>\<rparr>) 0
       = Err (InvalidTargetLabels (ReservedLabelCollision ''ns'' ''namespace''))"
proof -
  let ?ep = "webEndpoint\<lparr>Interval := []\<rparr>"
  let ?none = "noPortEndpoint [] []"
  let ?pm = "exampleTarget [?ep]"
  let ?pn = "exampleTarget [?none]"
  let ?pc = "?pm\<lparr>Spec := (Spec ?pm)
              \<lparr>TargetLabels := \<lparr>FromPod = [\<lparr>From = ''ns'', To = ''namespace''\<rparr>]\<rparr>\<rparr>\<rparr>"
  let ?sel = "[namespaceFilter ?pm, exactMatchRule [(''app'', ''x'')] ''app''] @ identityRules ?pm"
  have a: "ParseDuration exampleImports [] = None"
    by (simp add: exampleImports_def)
  have i: "0 < length (Endpoints (Spec ?pm))" "Interval (Endpoints (Spec ?pm) ! 0) = []"
          "0 < length (Endpoints (Spec ?pn))" "Interval (Endpoints (Spec ?pn) ! 0) = []"
          "0 < length (Endpoints (Spec ?pc))" "Interval (Endpoints (Spec ?pc) ! 0) = []"
    by (simp_all add: noPortEndpoint_def exampleTarget_def)
  have s: "selectorRelabelConfigs exampleImports ?pm = Ok ?sel"
          "selectorRelabelConfigs exampleImports ?pn = Ok ?sel"
          "selectorRelabelConfigs exampleImports ?pc = Ok ?sel"
    by (simp_all add: selectorRelabelConfigs_eq selectorPatterns_def selectorRules_def
          exampleTarget_def exampleImports_def isLabelChar_def mapIndex_def
          namespaceFilter_def identityRules_def)
  have p: "portRelabelConfigs exampleImports (Endpoints (Spec ?pm) ! 0) ?sel
             = Ok (?sel @ namedPortRules ''web'')"
          "portRelabelConfigs exampleImports (Endpoints (Spec ?pn) ! 0) ?sel = Err MissingPort"
          "portRelabelConfigs exampleImports (Endpoints (Spec ?pc) ! 0) ?sel
             = Ok (?sel @ namedPortRules ''web'')"
    by (simp_all add: portRelabelConfigs_eq webEndpoint_def noPortEndpoint_def exampleTarget_def
          exampleImports_def isLabelChar_def)
  have m: "labelMappingRelabelConfigs exampleImports (FromPod (TargetLabels (Spec ?pm)))
             ''__meta_kubernetes_pod_label_'' = Ok []"
          "labelMappingRelabelConfigs exampleImports (FromPod (TargetLabels (Spec ?pc)))
             ''__meta_kubernetes_pod_label_''
           = Err (ReservedLabelCollision ''ns'' ''namespace'')"
    by (simp_all add: labelMappingRelabelConfigs_def isPrometheusTargetLabel_def
          exampleTarget_def exampleImports_def)
  note t1 = empty_interval_rejected [where E = exampleImports and pm = ?pm and index = 0
         and rs = ?sel and rs' = "?sel @ namedPortRules ''web''" and ms = "[]"
         and cfg = webJob and e = MissingPort
         and e' = "ReservedLabelCollision ''ns'' ''namespace''", OF a i(1,2)]
  note t2 = empty_interval_rejected [where E = exampleImports and pm = ?pn and index = 0
         and rs = ?sel and rs' = "?sel @ namedPortRules ''web''" and ms = "[]"
         and cfg = webJob and e = MissingPort
         and e' = "ReservedLabelCollision ''ns'' ''namespace''", OF a i(3,4)]
  note t3 = empty_interval_rejected [where E = exampleImports and pm = ?pc and index = 0
         and rs = ?sel and rs' = "?sel @ namedPortRules ''web''" and ms = "[]"
         and cfg = webJob and e = MissingPort
         and e' = "ReservedLabelCollision ''ns'' ''namespace''", OF a i(5,6)]
  from t1 s(1) p(1) m(1)
  have 1: "endpontScrapeConfig exampleImports ?pm 0 = Err InvalidScrapeInterval"
    by blast
  from t2 s(2) p(2)
  have 2: "endpontScrapeConfig exampleImports ?pn 0 = Err MissingPort"
    by blast
  from t3 s(3) p(3) m(2)
  have 3: "endpontScrapeConfig exampleImports ?pc 0
             = Err (InvalidTargetLabels (ReservedLabelCollision ''ns'' ''namespace''))"
    by blast
  have n: "Interval ?ep = []" "Interval ?none = []"
    by (simp_all add: noPortEndpoint_def)
  from a n 1 2 3 show ?thesis by (intro conjI)
qed

text \<open>
  C10 as stated does not hold: an endpoint with an empty interval and no port is
  refused with the missing-port error, not with the invalid-duration error.
\<close>

theorem empty_interval_rejected_counterexample:
  "Interval (noPortEndpoint [] []) = []
   \<and> endpontScrapeConfig exampleImports (exampleTarget [noPortEndpoint [] []]) 0
       = Err MissingPort
   \<and> Err MissingPort \<noteq> (Err InvalidScrapeInterval :: ScrapeConfig result)"
  by (simp add: example_defs)

section \<open>All endpoints of a target\<close>

lemma ScrapeConfigsLoop_Ok_iff:
  "ScrapeConfigsLoop E pm is acc = Ok res \<longleftrightarrow>
     (\<exists>cs. res = acc @ cs \<and> list_all2 (\<lambda>i c. endpontScrapeConfig E pm i = Ok c) is cs)"
proof (induction "is" arbitrary: acc)
  case Nil
  then show ?case by auto
next
  case (Cons i "is")
  show ?case
  proof (cases "endpontScrapeConfig E pm i")
    case (Ok c)
    then show ?thesis
      by (auto simp add: Cons.IH list_all2_Cons1)
  next
    case (Err e)
    then show ?thesis by (simp add: list_all2_Cons1)
  next
    case Panic
    then show ?thesis by (simp add: list_all2_Cons1)
  qed
qed

lemma ScrapeConfigsLoop_first_error:
  assumes "list_all (\<lambda>j. \<exists>c. endpontScrapeConfig E pm j = Ok c) ia"
    and "endpontScrapeConfig E pm i = Err e"
  shows "ScrapeConfigsLoop E pm (ia @ i # ib) acc = Err (InvalidEndpoint i e)"
  using assms by (induction ia arbitrary: acc) auto

lemma upt_split_at: "i < n \<Longrightarrow> [0 ..< n] = [0 ..< i] @ i # [Suc i ..< n]"
proof -
  assume l: "i < n"
  then have "[0 ..< i + (n - i)] = [0 ..< i] @ [i ..< i + (n - i)]"
    by (intro upt_add_eq_append) simp
  with l have "[0 ..< n] = [0 ..< i] @ [i ..< n]" by simp
  also from l have "[i ..< n] = i # [Suc i ..< n]" by (rule upt_conv_Cons)
  finally show ?thesis .
qed

text \<open>
  C1, as amended. \<open>ScrapeConfigs\<close> is all-or-nothing across the target: it returns
  jobs exactly when every endpoint compiles, and then one job per endpoint, in the
  order of the endpoints; when an endpoint fails, the endpoints before it having
  compiled, it returns the error of that endpoint, wrapped with its index, and no job
  at all.
\<close>

theorem ScrapeConfigs_all_or_nothing:
  "(ScrapeConfigs E pm = Ok res \<longleftrightarrow>
      length res = length (Endpoints (Spec pm))
      \<and> (\<forall>i < length (Endpoints (Spec pm)). endpontScrapeConfig E pm i = Ok (res ! i)))
   \<and> (i < length (Endpoints (Spec pm)) \<and> endpontScrapeConfig E pm i = Err e
        \<and> (\<forall>j < i. \<exists>c. endpontScrapeConfig E pm j = Ok c) \<longrightarrow>
        ScrapeConfigs E pm = Err (InvalidEndpoint i e))"
proof (intro conjI impI)
  show "ScrapeConfigs E pm = Ok res \<longleftrightarrow>
      length res = length (Endpoints (Spec pm))
      \<and> (\<forall>i < length (Endpoints (Spec pm)). endpontScrapeConfig E pm i = Ok (res ! i))"
    by (auto simp add: ScrapeConfigs_def ScrapeConfigsLoop_Ok_iff list_all2_conv_all_nth)
next
  assume a: "i < length (Endpoints (Spec pm)) \<and> endpontScrapeConfig E pm i = Err e
        \<and> (\<forall>j < i. \<exists>c. endpontScrapeConfig E pm j = Ok c)"
  then have u: "[0 ..< length (Endpoints (Spec pm))]
                  = [0 ..< i] @ i # [Suc i ..< length (Endpoints (Spec pm))]"
    by (intro upt_split_at) simp
  from a have "list_all (\<lambda>j. \<exists>c. endpontScrapeConfig E pm j = Ok c) [0 ..< i]"
    by (simp add: list_all_iff)
  with a show "ScrapeConfigs E pm = Err (InvalidEndpoint i e)"
    unfolding ScrapeConfigs_def u by (intro ScrapeConfigsLoop_first_error) simp_all
qed

theorem ScrapeConfigs_all_or_nothing_witness:
  "ScrapeConfigs exampleImports (exampleTarget [webEndpoint]) = Ok [webJob]
   \<and> endpontScrapeConfig exampleImports
        (exampleTarget [webEndpoint, noPortEndpoint ''30s'' []]) 1 = Err MissingPort
   \<and> ScrapeConfigs exampleImports (exampleTarget [webEndpoint, noPortEndpoint ''30s'' []])
       = Err (InvalidEndpoint 1 MissingPort)"
proof -
  let ?two = "exampleTarget [webEndpoint, noPortEndpoint ''30s'' []]"
  have one: "length [webJob] = length (Endpoints (Spec (exampleTarget [webEndpoint])))
      \<and> (\<forall>i < length (Endpoints (Spec (exampleTarget [webEndpoint]))).
            endpontScrapeConfig exampleImports (exampleTarget [webEndpoint]) i = Ok ([webJob] ! i))"
    by (simp add: webJob_compiled)
  have e0: "endpontScrapeConfig exampleImports ?two 0 = Ok webJob"
    by (simp add: example_defs)
  have e1s: "endpontScrapeConfig exampleImports ?two (Suc 0) = Err MissingPort"
    by (simp add: example_defs)
  then have e1: "endpontScrapeConfig exampleImports ?two 1 = Err MissingPort"
    by simp
  have two: "1 < length (Endpoints (Spec ?two))
      \<and> endpontScrapeConfig exampleImports ?two 1 = Err MissingPort
      \<and> (\<forall>j < 1. \<exists>c. endpontScrapeConfig exampleImports ?two j = Ok c)"
    by (simp add: e0 e1s)
  from one ScrapeConfigs_all_or_nothing [of exampleImports "exampleTarget [webEndpoint]"
         "[webJob]" 0 MissingPort]
  have 1: "ScrapeConfigs exampleImports (exampleTarget [webEndpoint]) = Ok [webJob]"
    by blast
  from two ScrapeConfigs_all_or_nothing [of exampleImports ?two "[]" 1 MissingPort]
  have 2: "ScrapeConfigs exampleImports ?two = Err (InvalidEndpoint 1 MissingPort)"
    by blast
  from 1 e1 2 show ?thesis by (intro conjI)
qed

text \<open>
  C1 as stated does not hold: of two endpoints the first compiles on its own and the
  second has no port; \<open>ScrapeConfigs\<close> returns the error of the second and not the job
  of the first.
\<close>

theorem ScrapeConfigs_per_endpoint_counterexample:
  "endpontScrapeConfig exampleImports
      (exampleTarget [webEndpoint, noPortEndpoint ''30s'' []]) 0 = Ok webJob
   \<and> endpontScrapeConfig exampleImports
        (exampleTarget [webEndpoint, noPortEndpoint ''30s'' []]) 1 = Err MissingPort
   \<and> ScrapeConfigs exampleImports (exampleTarget [webEndpoint, noPortEndpoint ''30s'' []])
       = Err (InvalidEndpoint 1 MissingPort)"
proof -
  let ?two = "exampleTarget [webEndpoint, noPortEndpoint ''30s'' []]"
  have e0: "endpontScrapeConfig exampleImports ?two 0 = Ok webJob"
    by (simp add: example_defs)
  have e1: "endpontScrapeConfig exampleImports ?two (Suc 0) = Err MissingPort"
    by (simp add: example_defs)
  have "[0 ..< length (Endpoints (Spec ?two))] = [0, Suc 0]"
    by (simp add: upt_rec)
  then have "ScrapeConfigs exampleImports ?two = Err (InvalidEndpoint 1 MissingPort)"
    by (simp add: ScrapeConfigs_def e0 e1)
  with e0 e1 show ?thesis by simp
qed

section \<open>Reserved target labels\<close>

text \<open>
  A mapping whose \<^verbatim>\<open>to\<close> is written out and is one of the six reserved labels is
  refused, wherever it stands in the list.
\<close>

lemma explicit_reserved_target_rejected:
  assumes "To m \<in> {KeyProjectID E, KeyLocation E, KeyCluster E, KeyNamespace E,
                    KeyJob E, KeyInstance E}"
  shows "\<exists>m' :: LabelMapping. labelMappingRelabelConfigs E (ms @ m # ms') prefix
               = Err (ReservedLabelCollision (From m') (To m'))"
proof -
  from assms have "isPrometheusTargetLabel E (To m)"
    by (auto simp add: isPrometheusTargetLabel_def)
  then have "find (\<lambda>m. isPrometheusTargetLabel E (To m)) (ms @ m # ms') \<noteq> None"
    by (auto simp add: find_None_iff)
  then obtain y where "find (\<lambda>m. isPrometheusTargetLabel E (To m)) (ms @ m # ms') = Some y"
    by auto
  then have "labelMappingRelabelConfigs E (ms @ m # ms') prefix
               = Err (ReservedLabelCollision (From y) (To y))"
    by (simp add: labelMappingRelabelConfigs_eq)
  then show ?thesis ..
qed

text \<open>
  C2. The claim: a label mapping is refused whenever its resolved target label, that is
  \<^verbatim>\<open>to\<close>, or \<^verbatim>\<open>from\<close> when \<^verbatim>\<open>to\<close> is absent, is one of the six reserved labels.
  The code tests \<^verbatim>\<open>m.To\<close> before it defaults it: the mapping from \<^verbatim>\<open>namespace\<close> with
  no \<^verbatim>\<open>to\<close> is accepted and gives a Replace rule that writes the reserved label
  \<^verbatim>\<open>namespace\<close>, while the same target label written out is refused.
\<close>

theorem default_target_label_not_checked:
  "isPrometheusTargetLabel exampleImports ''namespace''
   \<and> labelMappingRelabelConfigs exampleImports [\<lparr>From = ''namespace'', To = []\<rparr>]
        ''__meta_kubernetes_pod_label_''
      = Ok [\<lparr>Action = Replace,
             SourceLabels = [''__meta_kubernetes_pod_label_namespace''],
             Regex = None, Replacement = [], TargetLabel = ''namespace''\<rparr>]
   \<and> labelMappingRelabelConfigs exampleImports [\<lparr>From = ''ns'', To = ''namespace''\<rparr>]
        ''__meta_kubernetes_pod_label_''
      = Err (ReservedLabelCollision ''ns'' ''namespace'')"
  by (simp add: labelMappingRelabelConfigs_def isPrometheusTargetLabel_def exampleImports_def
        isLabelChar_def)

end
